theory Spec2Isabelle
  imports Complex_Main "HOL-Library.Monad_Syntax"
begin

section \<open>Numbers\<close>

text \<open>
  The program computes with JavaScript numbers. They are modelled as real numbers:
  rounding of IEEE doubles is outside this model, and so is their range in this first
  part (the section on the range of doubles below takes the range into account where a
  property turns on it). What real arithmetic cannot express is written out: a division
  by zero yields \<open>Infinity\<close> or \<open>NaN\<close> and \<open>Math.sqrt\<close> of a negative number
  yields \<open>NaN\<close>. Both are the result \<open>None\<close>: a non-finite number has been
  produced, and the model does not follow the run any further.
\<close>

definition js_div :: "real \<Rightarrow> real \<Rightarrow> real option" where
  "js_div a b = (if b = 0 then None else Some (a / b))"

definition js_sqrt :: "real \<Rightarrow> real option" where
  "js_sqrt a = (if a < 0 then None else Some (sqrt a))"

subsection \<open>Constants for simulation (lines 6 to 9)\<close>

definition G :: real where
  "G = 1"

definition dt :: real where
  "dt = 1 / 100"

definition minDistance :: real where
  "minDistance = 1 / 10"

definition maxTrailLength :: nat where
  "maxTrailLength = 100"

section \<open>THREE.Vector3\<close>

text \<open>
  Modelled from the spec: \<open>THREE.Vector3\<close> belongs to the library three.js, which is
  imported by \<open>main.js\<close> and is not part of the sources. The spec names it
  as 3D vector add, subtract, scale, normalize and distance. The operations below are the
  componentwise ones of that library; \<open>divideScalar(s)\<close> is \<open>multiplyScalar(1 / s)\<close>
  and \<open>normalize()\<close> is \<open>divideScalar(length() || 1)\<close>, so the zero vector is
  normalised to the zero vector (the deterministic fallback the spec asks for).
\<close>

datatype vec3 = Vector3 (vx: real) (vy: real) (vz: real)

definition vadd :: "vec3 \<Rightarrow> vec3 \<Rightarrow> vec3" where
  "vadd u v = Vector3 (vx u + vx v) (vy u + vy v) (vz u + vz v)"

definition vsub :: "vec3 \<Rightarrow> vec3 \<Rightarrow> vec3" where
  "vsub u v = Vector3 (vx u - vx v) (vy u - vy v) (vz u - vz v)"

definition vnegate :: "vec3 \<Rightarrow> vec3" where
  "vnegate u = Vector3 (- vx u) (- vy u) (- vz u)"

definition vscale :: "vec3 \<Rightarrow> real \<Rightarrow> vec3" where
  "vscale u k = Vector3 (vx u * k) (vy u * k) (vz u * k)"

definition vlength :: "vec3 \<Rightarrow> real" where
  "vlength u = sqrt (vx u * vx u + vy u * vy u + vz u * vz u)"

subsection \<open>Vector objects in a store\<close>

text \<open>
  A \<open>Vector3\<close> is a mutable object: \<open>add\<close>, \<open>sub\<close>, \<open>negate\<close>,
  \<open>multiplyScalar\<close>, \<open>divideScalar\<close> and \<open>normalize\<close> change the receiver in
  place and return it, \<open>clone\<close> and \<open>new\<close> allocate. The store maps the address
  of every vector object to its current value; \<open>nxt\<close> is the next free address.
  A method that returns its receiver is modelled by the store it leaves.
\<close>

type_synonym addr = nat

record store =
  cells :: "addr \<Rightarrow> vec3"
  nxt :: addr

definition new_Vector3 :: "vec3 \<Rightarrow> store \<Rightarrow> addr \<times> store" where
  "new_Vector3 v h = (nxt h, h\<lparr>cells := (cells h)(nxt h := v), nxt := Suc (nxt h)\<rparr>)"

definition clone :: "addr \<Rightarrow> store \<Rightarrow> addr \<times> store" where
  "clone a h = new_Vector3 (cells h a) h"

definition add :: "addr \<Rightarrow> addr \<Rightarrow> store \<Rightarrow> store" where
  "add a b h = h\<lparr>cells := (cells h)(a := vadd (cells h a) (cells h b))\<rparr>"

definition sub :: "addr \<Rightarrow> addr \<Rightarrow> store \<Rightarrow> store" where
  "sub a b h = h\<lparr>cells := (cells h)(a := vsub (cells h a) (cells h b))\<rparr>"

definition negate :: "addr \<Rightarrow> store \<Rightarrow> store" where
  "negate a h = h\<lparr>cells := (cells h)(a := vnegate (cells h a))\<rparr>"

definition multiplyScalar :: "addr \<Rightarrow> real \<Rightarrow> store \<Rightarrow> store" where
  "multiplyScalar a k h = h\<lparr>cells := (cells h)(a := vscale (cells h a) k)\<rparr>"

definition divideScalar :: "addr \<Rightarrow> real \<Rightarrow> store \<Rightarrow> store option" where
  "divideScalar a k h = do { r \<leftarrow> js_div 1 k; Some (multiplyScalar a r h) }"

definition length_of :: "addr \<Rightarrow> store \<Rightarrow> real" where
  "length_of a h = vlength (cells h a)"

definition normalize :: "addr \<Rightarrow> store \<Rightarrow> store option" where
  "normalize a h = divideScalar a (if length_of a h = 0 then 1 else length_of a h) h"

definition distanceTo :: "addr \<Rightarrow> addr \<Rightarrow> store \<Rightarrow> real" where
  "distanceTo a b h = vlength (vsub (cells h a) (cells h b))"

section \<open>Bodies in the system (lines 12 to 56)\<close>

text \<open>
  A body holds references to its position and velocity vectors, its mass and colour,
  and the array \<open>trailPositions\<close> of references to the stored points of its tail.
  The geometry, material and line objects of three.js only serve rendering and are
  left out.
\<close>

record body =
  position :: addr
  velocity :: addr
  mass :: real
  color :: nat
  trailPositions :: "addr list"

text \<open>
  The constructor stores its arguments as they are and starts with an empty trail.
  \<open>None\<close> would be an exception thrown by \<open>new Body(...)\<close>; the constructor has
  no \<open>throw\<close> statement.
\<close>

definition new_Body :: "addr \<Rightarrow> addr \<Rightarrow> real \<Rightarrow> nat \<Rightarrow> body option" where
  "new_Body pos vel m col =
     Some \<lparr>position = pos, velocity = vel, mass = m, color = col, trailPositions = []\<rparr>"

definition applyForce :: "body \<Rightarrow> addr \<Rightarrow> store \<Rightarrow> store option" where
  "applyForce this force h = do {
     let (acceleration, h1) = clone force h;
     h2 \<leftarrow> divideScalar acceleration (mass this) h1;
     let h3 = multiplyScalar acceleration dt h2;
     Some (add (velocity this) acceleration h3)
   }"

definition updatePosition :: "body \<Rightarrow> store \<Rightarrow> store" where
  "updatePosition this h =
     (let (step, h1) = clone (velocity this) h;
          h2 = multiplyScalar step dt h1
      in add (position this) step h2)"

text \<open>
  \<open>updateTrail\<close> stores a clone of the position: \<open>push\<close> appends it at the end of
  the array, \<open>shift\<close> removes the first element of the array. Lines 44 to 54 copy the
  coordinates of the entries, in the order of the array, into the buffer of the renderer;
  they change neither the array nor a vector and are left out.
\<close>

definition updateTrail :: "body \<Rightarrow> store \<Rightarrow> body \<times> store" where
  "updateTrail this h =
     (let (p, h1) = clone (position this) h;
          pushed = trailPositions this @ [p];
          kept = (if length pushed > maxTrailLength then tl pushed else pushed)
      in (this\<lparr>trailPositions := kept\<rparr>, h1))"

section \<open>The three bodies and their initial velocities (lines 59 to 78)\<close>

definition getOrbitalVelocity :: "body \<Rightarrow> body \<Rightarrow> store \<Rightarrow> real option" where
  "getOrbitalVelocity body1 body2 h = do {
     let distance = distanceTo (position body1) (position body2) h;
     q \<leftarrow> js_div (G * mass body2) distance;
     js_sqrt q
   }"

text \<open>
  Lines 70 to 73 and lines 75 to 78 are the same statements, for \<open>bodyA\<close> and for
  \<open>bodyC\<close>, each around \<open>bodyB\<close>: \<open>seedOrbit p q\<close> is that block for the
  orbiting body \<open>p\<close> and the reference body \<open>q\<close>. It assigns a new vector to the
  field \<open>velocity\<close> of \<open>p\<close>. The constants \<open>distanceAB\<close> and \<open>distanceBC\<close> of
  lines 70 and 75 are computed and never used.
\<close>

definition seedOrbit :: "body \<Rightarrow> body \<Rightarrow> store \<Rightarrow> (body \<times> store) option" where
  "seedOrbit p q h = do {
     orbitalVelocity \<leftarrow> getOrbitalVelocity p q h;
     let (direction, h1) = clone (position p) h;
     let h2 = sub direction (position q) h1;
     h3 \<leftarrow> normalize direction h2;
     let (v, h4) = new_Vector3 (Vector3 (- vy (cells h3 direction)) (vx (cells h3 direction)) 0) h3;
     let h5 = multiplyScalar v orbitalVelocity h4;
     Some (p\<lparr>velocity := v\<rparr>, h5)
   }"

text \<open>
  The state of the program: the store of the vector objects and the three bodies, which
  the source holds in the constants \<open>bodyA\<close>, \<open>bodyB\<close> and \<open>bodyC\<close>.
\<close>

record state =
  heap :: store
  bodyA :: body
  bodyB :: body
  bodyC :: body

definition emptyStore :: store where
  "emptyStore = \<lparr>cells = (\<lambda>_. Vector3 0 0 0), nxt = 0\<rparr>"

definition initialState :: "state option" where
  "initialState = do {
     let (pA, h1) = new_Vector3 (Vector3 0 2 0) emptyStore;
     let (vA, h2) = new_Vector3 (Vector3 0 0 0) h1;
     a \<leftarrow> new_Body pA vA 1 0xff0000;
     let (pB, h3) = new_Vector3 (Vector3 1 0 1) h2;
     let (vB, h4) = new_Vector3 (Vector3 0 0 0) h3;
     b \<leftarrow> new_Body pB vB 1 0x00ff00;
     let (pC, h5) = new_Vector3 (Vector3 (- 1) 0 1) h4;
     let (vC, h6) = new_Vector3 (Vector3 0 0 0) h5;
     c \<leftarrow> new_Body pC vC 1 0x0000ff;
     (a', h7) \<leftarrow> seedOrbit a b h6;
     (c', h8) \<leftarrow> seedOrbit c b h7;
     Some \<lparr>heap = h8, bodyA = a', bodyB = b, bodyC = c'\<rparr>
   }"

section \<open>Forces and one tick (lines 81 to 119)\<close>

text \<open>
  \<open>computeGravitationalForce\<close> returns a new vector object. \<open>updateBodies\<close> is one
  tick; its statements are taken in the order of the source, every \<open>clone\<close> is an
  allocation. The result \<open>None\<close> of a tick says that a non-finite number has come up
  (a body of mass 0 in \<open>applyForce\<close>).
\<close>

definition computeGravitationalForce :: "body \<Rightarrow> body \<Rightarrow> store \<Rightarrow> (addr \<times> store) option" where
  "computeGravitationalForce body1 body2 h = do {
     let (distanceVec, h1) = clone (position body2) h;
     let h2 = sub distanceVec (position body1) h1;
     let distance = length_of distanceVec h2;
     let distance = (if distance < minDistance then minDistance else distance);
     forceMagnitude \<leftarrow> js_div (G * mass body1 * mass body2) (distance * distance);
     h3 \<leftarrow> normalize distanceVec h2;
     Some (distanceVec, multiplyScalar distanceVec forceMagnitude h3)
   }"

definition updateBodies :: "state \<Rightarrow> state option" where
  "updateBodies s = do {
     let a = bodyA s;
     let b = bodyB s;
     let c = bodyC s;
     (forceAB, h1) \<leftarrow> computeGravitationalForce a b (heap s);
     (forceAC, h2) \<leftarrow> computeGravitationalForce a c h1;
     (forceBC, h3) \<leftarrow> computeGravitationalForce b c h2;
     let (fA, h4) = clone forceAB h3;
     let (t1, h5) = clone forceAC h4;
     let h6 = add fA t1 h5;
     h7 \<leftarrow> applyForce a fA h6;
     let (fB, h8) = clone forceAB h7;
     let h9 = negate fB h8;
     let (t2, h10) = clone forceBC h9;
     let h11 = add fB t2 h10;
     h12 \<leftarrow> applyForce b fB h11;
     let (fC, h13) = clone forceAC h12;
     let h14 = negate fC h13;
     let (t3, h15) = clone forceBC h14;
     let h16 = negate t3 h15;
     let h17 = add fC t3 h16;
     h18 \<leftarrow> applyForce c fC h17;
     let h19 = updatePosition a h18;
     let h20 = updatePosition b h19;
     let h21 = updatePosition c h20;
     let (a', h22) = updateTrail a h21;
     let (b', h23) = updateTrail b h22;
     let (c', h24) = updateTrail c h23;
     Some \<lparr>heap = h24, bodyA = a', bodyB = b', bodyC = c'\<rparr>
   }"

text \<open>
  The animation loop (lines 171 to 189): every frame calls \<open>updateBodies\<close> once and
  then hands the positions and trails to the renderer. The loop never ends;
  \<open>animateThreeBodyProblem n s\<close> runs \<open>n\<close> frames from the state \<open>s\<close> and is
  the list of the states the renderer sees, one at the end of each frame.
\<close>

fun animateThreeBodyProblem :: "nat \<Rightarrow> state \<Rightarrow> state list option" where
  "animateThreeBodyProblem 0 s = Some []"
| "animateThreeBodyProblem (Suc n) s = do {
     s' \<leftarrow> updateBodies s;
     rest \<leftarrow> animateThreeBodyProblem n s';
     Some (s' # rest)
   }"

section \<open>Notions used to state the properties\<close>

text \<open>The values a state holds: a body's position, velocity and trail, read through the store.\<close>

definition posOf :: "state \<Rightarrow> body \<Rightarrow> vec3" where
  "posOf s b = cells (heap s) (position b)"

definition velOf :: "state \<Rightarrow> body \<Rightarrow> vec3" where
  "velOf s b = cells (heap s) (velocity b)"

definition trailOf :: "state \<Rightarrow> body \<Rightarrow> vec3 list" where
  "trailOf s b = map (cells (heap s)) (trailPositions b)"

text \<open>
  The force law in the words of the spec (section 4.1): with \<open>d = b.position - a.position\<close>
  and \<open>r = max(|d|, minDistance)\<close>, the force on \<open>a\<close> by \<open>b\<close> is
  \<open>normalize(d) * (G * a.mass * b.mass / r^2)\<close>. It is compared below with what
  \<open>computeGravitationalForce\<close> leaves in the store.
\<close>

definition vdivide :: "vec3 \<Rightarrow> real \<Rightarrow> vec3" where
  "vdivide u k = Vector3 (vx u / k) (vy u / k) (vz u / k)"

definition vnormalize :: "vec3 \<Rightarrow> vec3" where
  "vnormalize d = (if vlength d = 0 then d else vdivide d (vlength d))"

definition forceOn :: "vec3 \<Rightarrow> real \<Rightarrow> vec3 \<Rightarrow> real \<Rightarrow> vec3" where
  "forceOn pa ma pb mb =
     (let d = vsub pb pa; r = max (vlength d) minDistance
      in vscale (vnormalize d) (G * ma * mb / (r * r)))"

definition forceBetween :: "state \<Rightarrow> body \<Rightarrow> body \<Rightarrow> vec3" where
  "forceBetween s a b = forceOn (posOf s a) (mass a) (posOf s b) (mass b)"

text \<open>
  The net forces of a tick, as lines 102, 105 and 108 put them together from the three
  pairwise forces, here taken at the positions of the state \<open>s\<close>.
\<close>

definition netForceA :: "state \<Rightarrow> vec3" where
  "netForceA s = vadd (forceBetween s (bodyA s) (bodyB s)) (forceBetween s (bodyA s) (bodyC s))"

definition netForceB :: "state \<Rightarrow> vec3" where
  "netForceB s =
     vadd (vnegate (forceBetween s (bodyA s) (bodyB s))) (forceBetween s (bodyB s) (bodyC s))"

definition netForceC :: "state \<Rightarrow> vec3" where
  "netForceC s =
     vadd (vnegate (forceBetween s (bodyA s) (bodyC s)))
       (vnegate (forceBetween s (bodyB s) (bodyC s)))"

definition momentum :: "state \<Rightarrow> vec3" where
  "momentum s =
     vadd (vadd (vscale (velOf s (bodyA s)) (mass (bodyA s)))
                (vscale (velOf s (bodyB s)) (mass (bodyB s))))
          (vscale (velOf s (bodyC s)) (mass (bodyC s)))"

text \<open>
  What \<open>updateTrail\<close> does to the array (lines 37 to 42), and the last \<open>k\<close>
  elements of a list.
\<close>

definition pushTrail :: "'a list \<Rightarrow> 'a \<Rightarrow> 'a list" where
  "pushTrail t p = (if length (t @ [p]) > maxTrailLength then tl (t @ [p]) else t @ [p])"

definition lastN :: "nat \<Rightarrow> 'a list \<Rightarrow> 'a list" where
  "lastN k xs = drop (length xs - k) xs"

text \<open>
  The vector objects a state refers to, and the states in which no two references are
  aliases: the six position and velocity objects are pairwise different, every object
  referred to is allocated, and no trail entry is one of the six.
\<close>

definition vectorsOf :: "state \<Rightarrow> addr list" where
  "vectorsOf s = [position (bodyA s), velocity (bodyA s), position (bodyB s),
     velocity (bodyB s), position (bodyC s), velocity (bodyC s)]"

definition trailsOf :: "state \<Rightarrow> addr list" where
  "trailsOf s = trailPositions (bodyA s) @ trailPositions (bodyB s) @ trailPositions (bodyC s)"

definition separated :: "state \<Rightarrow> bool" where
  "separated s \<longleftrightarrow>
     distinct (vectorsOf s) \<and>
     (\<forall>a \<in> set (vectorsOf s @ trailsOf s). a < nxt (heap s)) \<and>
     set (vectorsOf s) \<inter> set (trailsOf s) = {}"

text \<open>
  The last entry of the trail of \<open>b\<close> is an object of its own, not the position
  object of \<open>b\<close>, and it holds the value of the position of \<open>b\<close>.
\<close>

definition trailTracks :: "state \<Rightarrow> body \<Rightarrow> bool" where
  "trailTracks t b \<longleftrightarrow>
     trailPositions b \<noteq> [] \<and> last (trailPositions b) \<noteq> position b \<and>
     cells (heap t) (last (trailPositions b)) = posOf t b"

text \<open>
  Every object that was allocated in \<open>s\<close> and is not one of the six position and
  velocity objects has in \<open>t\<close> the value it had in \<open>s\<close>.
\<close>

definition untouched :: "state \<Rightarrow> state \<Rightarrow> bool" where
  "untouched s t \<longleftrightarrow>
     (\<forall>a. a < nxt (heap s) \<longrightarrow> a \<notin> set (vectorsOf s) \<longrightarrow> cells (heap t) a = cells (heap s) a)"

text \<open>
  The same three bodies handed to \<open>updateBodies\<close> in another order: \<open>x\<close> takes the
  place of \<open>bodyA\<close>, \<open>y\<close> of \<open>bodyB\<close> and \<open>z\<close> of \<open>bodyC\<close>.
\<close>

definition withOrder :: "body \<Rightarrow> body \<Rightarrow> body \<Rightarrow> state \<Rightarrow> state" where
  "withOrder x y z s = s\<lparr>bodyA := x, bodyB := y, bodyC := z\<rparr>"

definition orders :: "state \<Rightarrow> (body \<times> body \<times> body) list" where
  "orders s =
     [(bodyA s, bodyB s, bodyC s), (bodyA s, bodyC s, bodyB s), (bodyB s, bodyA s, bodyC s),
      (bodyB s, bodyC s, bodyA s), (bodyC s, bodyA s, bodyB s), (bodyC s, bodyB s, bodyA s)]"

section \<open>The range of doubles\<close>

text \<open>
  A JavaScript number is a double. The definitions above take every operation as exact.
  Where a property turns on a result that is too large or too small for a double, the
  operations are taken with their range: \<open>dbl x\<close> is the result of one operation whose
  exact result is \<open>x\<close>. A result of magnitude \<open>2^1024 - 2^970\<close> or more is
  \<open>Infinity\<close> or \<open>-Infinity\<close>; that is \<open>None\<close>, a non-finite number, as
  a division by zero is. A result of magnitude \<open>2^-1075\<close> or less is 0. Every other
  result is taken as it is: rounding to the nearest double is left out here too.
\<close>

definition overflowAt :: real where
  "overflowAt = 2 ^ 1024 - 2 ^ 970"

definition underflowAt :: real where
  "underflowAt = 1 / 2 ^ 1075"

definition dbl :: "real \<Rightarrow> real option" where
  "dbl x = (if overflowAt \<le> \<bar>x\<bar> then None else if \<bar>x\<bar> \<le> underflowAt then Some 0 else Some x)"

definition dbl_add :: "real \<Rightarrow> real \<Rightarrow> real option" where
  "dbl_add a b = dbl (a + b)"

definition dbl_sub :: "real \<Rightarrow> real \<Rightarrow> real option" where
  "dbl_sub a b = dbl (a - b)"

definition dbl_mul :: "real \<Rightarrow> real \<Rightarrow> real option" where
  "dbl_mul a b = dbl (a * b)"

definition dbl_div :: "real \<Rightarrow> real \<Rightarrow> real option" where
  "dbl_div a b = (if b = 0 then None else dbl (a / b))"

definition dbl_sqrt :: "real \<Rightarrow> real option" where
  "dbl_sqrt a = (if a < 0 then None else dbl (sqrt a))"

text \<open>
  Modelled from the spec: the operations of \<open>THREE.Vector3\<close> that compute (three.js is
  not part of the sources), one operation of doubles after the other as that library
  writes them: \<open>sub\<close> and \<open>multiplyScalar\<close> work on the three
  components, \<open>length()\<close> is \<open>Math.sqrt(x * x + y * y + z * z)\<close>,
  \<open>distanceTo(v)\<close> is the square root of the sum of the squares of the three
  differences, \<open>divideScalar(s)\<close> is \<open>multiplyScalar(1 / s)\<close> and \<open>normalize()\<close>
  is \<open>divideScalar(length() || 1)\<close>.
\<close>

definition vsub_dbl :: "vec3 \<Rightarrow> vec3 \<Rightarrow> vec3 option" where
  "vsub_dbl u v = do {
     x \<leftarrow> dbl_sub (vx u) (vx v);
     y \<leftarrow> dbl_sub (vy u) (vy v);
     z \<leftarrow> dbl_sub (vz u) (vz v);
     Some (Vector3 x y z)
   }"

definition vscale_dbl :: "vec3 \<Rightarrow> real \<Rightarrow> vec3 option" where
  "vscale_dbl u k = do {
     x \<leftarrow> dbl_mul (vx u) k;
     y \<leftarrow> dbl_mul (vy u) k;
     z \<leftarrow> dbl_mul (vz u) k;
     Some (Vector3 x y z)
   }"

definition vlength_dbl :: "vec3 \<Rightarrow> real option" where
  "vlength_dbl u = do {
     xx \<leftarrow> dbl_mul (vx u) (vx u);
     yy \<leftarrow> dbl_mul (vy u) (vy u);
     xy \<leftarrow> dbl_add xx yy;
     zz \<leftarrow> dbl_mul (vz u) (vz u);
     q \<leftarrow> dbl_add xy zz;
     dbl_sqrt q
   }"

definition sub_dbl :: "addr \<Rightarrow> addr \<Rightarrow> store \<Rightarrow> store option" where
  "sub_dbl a b h = do {
     v \<leftarrow> vsub_dbl (cells h a) (cells h b);
     Some (h\<lparr>cells := (cells h)(a := v)\<rparr>)
   }"

definition multiplyScalar_dbl :: "addr \<Rightarrow> real \<Rightarrow> store \<Rightarrow> store option" where
  "multiplyScalar_dbl a k h = do {
     v \<leftarrow> vscale_dbl (cells h a) k;
     Some (h\<lparr>cells := (cells h)(a := v)\<rparr>)
   }"

definition divideScalar_dbl :: "addr \<Rightarrow> real \<Rightarrow> store \<Rightarrow> store option" where
  "divideScalar_dbl a k h = do { r \<leftarrow> dbl_div 1 k; multiplyScalar_dbl a r h }"

definition length_dbl :: "addr \<Rightarrow> store \<Rightarrow> real option" where
  "length_dbl a h = vlength_dbl (cells h a)"

definition normalize_dbl :: "addr \<Rightarrow> store \<Rightarrow> store option" where
  "normalize_dbl a h = do {
     l \<leftarrow> length_dbl a h;
     divideScalar_dbl a (if l = 0 then 1 else l) h
   }"

definition distanceTo_dbl :: "addr \<Rightarrow> addr \<Rightarrow> store \<Rightarrow> real option" where
  "distanceTo_dbl a b h = do {
     d \<leftarrow> vsub_dbl (cells h a) (cells h b);
     vlength_dbl d
   }"

text \<open>
  \<open>getOrbitalVelocity\<close>, the seeding block and \<open>computeGravitationalForce\<close> once
  more, statement by statement as before, with these operations.
\<close>

definition getOrbitalVelocity_dbl :: "body \<Rightarrow> body \<Rightarrow> store \<Rightarrow> real option" where
  "getOrbitalVelocity_dbl body1 body2 h = do {
     distance \<leftarrow> distanceTo_dbl (position body1) (position body2) h;
     gm \<leftarrow> dbl_mul G (mass body2);
     q \<leftarrow> dbl_div gm distance;
     dbl_sqrt q
   }"

definition seedOrbit_dbl :: "body \<Rightarrow> body \<Rightarrow> store \<Rightarrow> (body \<times> store) option" where
  "seedOrbit_dbl p q h = do {
     orbitalVelocity \<leftarrow> getOrbitalVelocity_dbl p q h;
     let (direction, h1) = clone (position p) h;
     h2 \<leftarrow> sub_dbl direction (position q) h1;
     h3 \<leftarrow> normalize_dbl direction h2;
     let (v, h4) = new_Vector3 (Vector3 (- vy (cells h3 direction)) (vx (cells h3 direction)) 0) h3;
     h5 \<leftarrow> multiplyScalar_dbl v orbitalVelocity h4;
     Some (p\<lparr>velocity := v\<rparr>, h5)
   }"

definition computeGravitationalForce_dbl ::
    "body \<Rightarrow> body \<Rightarrow> store \<Rightarrow> (addr \<times> store) option" where
  "computeGravitationalForce_dbl body1 body2 h = do {
     let (distanceVec, h1) = clone (position body2) h;
     h2 \<leftarrow> sub_dbl distanceVec (position body1) h1;
     distance \<leftarrow> length_dbl distanceVec h2;
     let distance = (if distance < minDistance then minDistance else distance);
     gm \<leftarrow> dbl_mul G (mass body1);
     gmm \<leftarrow> dbl_mul gm (mass body2);
     dd \<leftarrow> dbl_mul distance distance;
     forceMagnitude \<leftarrow> dbl_div gmm dd;
     h3 \<leftarrow> normalize_dbl distanceVec h2;
     h4 \<leftarrow> multiplyScalar_dbl distanceVec forceMagnitude h3;
     Some (distanceVec, h4)
   }"

text \<open>
  Numbers and vectors well inside the range of doubles: \<open>between a b x\<close> says that
  \<open>x\<close> is 0 or of magnitude between \<open>2^-a\<close> and \<open>2^b\<close>, and a moderate number
  is 0 or of magnitude between \<open>2^-100\<close> and \<open>2^100\<close>.
\<close>

definition between :: "nat \<Rightarrow> nat \<Rightarrow> real \<Rightarrow> bool" where
  "between a b x \<longleftrightarrow> x = 0 \<or> (1 / 2 ^ a \<le> \<bar>x\<bar> \<and> \<bar>x\<bar> \<le> 2 ^ b)"

definition moderate :: "real \<Rightarrow> bool" where
  "moderate x \<longleftrightarrow> x = 0 \<or> (1 / 2 ^ 100 \<le> \<bar>x\<bar> \<and> \<bar>x\<bar> \<le> 2 ^ 100)"

definition vbetween :: "nat \<Rightarrow> nat \<Rightarrow> vec3 \<Rightarrow> bool" where
  "vbetween a b u \<longleftrightarrow> between a b (vx u) \<and> between a b (vy u) \<and> between a b (vz u)"

definition vmoderate :: "vec3 \<Rightarrow> bool" where
  "vmoderate u \<longleftrightarrow> moderate (vx u) \<and> moderate (vy u) \<and> moderate (vz u)"

text \<open>
  The velocity of a circular orbit in the words of the spec (section 4.4): for a body at
  \<open>pp\<close> around a reference body of mass \<open>mq\<close> at \<open>pq\<close>, with \<open>r\<close> the distance
  and \<open>u\<close> the unit vector from \<open>pq\<close> to \<open>pp\<close>, it is
  \<open>(-u.y, u.x, 0) * sqrt(G * mq / r)\<close>.
\<close>

definition orbitVelocity :: "vec3 \<Rightarrow> vec3 \<Rightarrow> real \<Rightarrow> vec3" where
  "orbitVelocity pp pq mq =
     (let r = vlength (vsub pp pq);
          u = vdivide (vsub pp pq) r
      in vscale (Vector3 (- vy u) (vx u) 0) (sqrt (G * mq / r)))"

section \<open>Auxiliary facts\<close>

subsection \<open>Vector arithmetic\<close>

lemma vlength_nonneg: "0 \<le> vlength u"
  by (simp add: vlength_def)

lemma vlength_eq_0: "vlength u = 0 \<longleftrightarrow> u = Vector3 0 0 0"
proof -
  have "vx u * vx u + vy u * vy u + vz u * vz u = 0 \<longleftrightarrow> vx u = 0 \<and> vy u = 0 \<and> vz u = 0"
    by (simp add: add_nonneg_eq_0_iff)
  then show ?thesis
    by (cases u) (simp add: vlength_def)
qed

lemma vlength_vscale: "vlength (vscale u k) = \<bar>k\<bar> * vlength u"
proof -
  have "vx u * k * (vx u * k) + vy u * k * (vy u * k) + vz u * k * (vz u * k)
      = k\<^sup>2 * (vx u * vx u + vy u * vy u + vz u * vz u)"
    by (simp add: power2_eq_square algebra_simps)
  then show ?thesis
    by (simp add: vlength_def vscale_def real_sqrt_mult)
qed

lemma vlength_vnegate: "vlength (vnegate u) = vlength u"
  by (simp add: vlength_def vnegate_def)

lemma vlength_on_axis: "vlength (Vector3 a 0 0) = \<bar>a\<bar>"
  by (simp add: vlength_def)

lemma vadd_commute: "vadd u v = vadd v u"
  by (simp add: vadd_def)

lemma vsub_swap: "vsub u v = vnegate (vsub v u)"
  by (simp add: vsub_def vnegate_def)

lemma vscale_reciprocal: "vscale u (1 / k) = vdivide u k"
  by (simp add: vscale_def vdivide_def)

lemma vnormalize_eq: "vscale d (1 / (if vlength d = 0 then 1 else vlength d)) = vnormalize d"
  by (cases d) (simp add: vnormalize_def vscale_def vdivide_def)

lemma vlength_vnormalize: "d \<noteq> Vector3 0 0 0 \<Longrightarrow> vlength (vnormalize d) = 1"
  using vlength_nonneg [of d]
  by (simp add: vnormalize_def vlength_eq_0 vscale_reciprocal [symmetric] vlength_vscale)

lemma vnormalize_vnegate: "vnormalize (vnegate d) = vnegate (vnormalize d)"
  by (simp add: vnormalize_def vlength_vnegate) (simp add: vnegate_def vdivide_def)

lemma forceOn_swap: "forceOn pb mb pa ma = vnegate (forceOn pa ma pb mb)"
proof -
  have "vsub pa pb = vnegate (vsub pb pa)"
    by (rule vsub_swap)
  then show ?thesis
    by (simp add: forceOn_def Let_def vnormalize_vnegate vlength_vnegate mult.commute mult.left_commute)
      (simp add: vscale_def vnegate_def)
qed

lemma forceOn_coincident: "forceOn p ma p mb = Vector3 0 0 0"
  by (simp add: forceOn_def Let_def vsub_def vnormalize_def vlength_def vscale_def)

lemma clamp_max: "(if r < minDistance then minDistance else r) = max r minDistance"
  by (simp add: max_def)

lemma clamp_pos: "0 < max r minDistance"
  by (simp add: max_def minDistance_def)

lemma vlength_forceOn:
  assumes "pa \<noteq> pb"
  shows "vlength (forceOn pa ma pb mb) =
    \<bar>G * ma * mb\<bar> / (max (vlength (vsub pb pa)) minDistance * max (vlength (vsub pb pa)) minDistance)"
proof -
  have "vsub pb pa \<noteq> Vector3 0 0 0"
    using assms by (cases pa, cases pb) (auto simp add: vsub_def)
  then show ?thesis
    using clamp_pos [of "vlength (vsub pb pa)"]
    by (simp add: forceOn_def Let_def vlength_vscale vlength_vnormalize abs_mult)
qed

subsection \<open>The methods, as changes of the store\<close>

lemma clone_eq: "clone a h = (nxt h, h\<lparr>cells := (cells h)(nxt h := cells h a), nxt := Suc (nxt h)\<rparr>)"
  by (simp add: clone_def new_Vector3_def)

lemma normalize_eq:
  "normalize a h = Some (h\<lparr>cells := (cells h)(a := vnormalize (cells h a))\<rparr>)"
  by (simp add: normalize_def divideScalar_def js_div_def multiplyScalar_def length_of_def
      vnormalize_eq [symmetric] del: one_divide_eq_0_iff)

lemma distanceTo_sym: "distanceTo a b h = vlength (vsub (cells h b) (cells h a))"
proof -
  have "vsub (cells h a) (cells h b) = vnegate (vsub (cells h b) (cells h a))"
    by (rule vsub_swap)
  then show ?thesis
    by (simp add: distanceTo_def vlength_vnegate)
qed

lemma computeGravitationalForce_eq:
  assumes "position body1 \<noteq> nxt h"
  shows "computeGravitationalForce body1 body2 h =
     Some (nxt h, h\<lparr>cells := (cells h)(nxt h :=
        forceOn (cells h (position body1)) (mass body1) (cells h (position body2)) (mass body2)),
        nxt := Suc (nxt h)\<rparr>)"
proof -
  define r where "r = vlength (vsub (cells h (position body2)) (cells h (position body1)))"
  have nz: "max r minDistance * max r minDistance \<noteq> 0"
    using clamp_pos [of r] by simp
  show ?thesis
    using assms nz
    by (simp add: computeGravitationalForce_def clone_eq sub_def length_of_def normalize_eq
        js_div_def multiplyScalar_def forceOn_def Let_def clamp_max r_def del: mult_eq_0_iff)
qed

lemma applyForce_eq:
  assumes "mass this \<noteq> 0" "velocity this \<noteq> nxt h"
  shows "applyForce this f h =
     Some (h\<lparr>cells := (cells h)(nxt h := vscale (vscale (cells h f) (1 / mass this)) dt,
        velocity this := vadd (cells h (velocity this)) (vscale (vscale (cells h f) (1 / mass this)) dt)),
        nxt := Suc (nxt h)\<rparr>)"
  using assms
  by (simp add: applyForce_def clone_eq divideScalar_def js_div_def multiplyScalar_def add_def)

lemma updatePosition_eq:
  assumes "position this \<noteq> nxt h"
  shows "updatePosition this h =
     h\<lparr>cells := (cells h)(nxt h := vscale (cells h (velocity this)) dt,
        position this := vadd (cells h (position this)) (vscale (cells h (velocity this)) dt)),
        nxt := Suc (nxt h)\<rparr>"
  using assms
  by (simp add: updatePosition_def clone_eq multiplyScalar_def add_def)

lemma updateTrail_eq:
  "updateTrail this h =
     (this\<lparr>trailPositions := pushTrail (trailPositions this) (nxt h)\<rparr>,
      h\<lparr>cells := (cells h)(nxt h := cells h (position this)), nxt := Suc (nxt h)\<rparr>)"
  by (simp add: updateTrail_def clone_eq pushTrail_def Let_def)

lemma seedOrbit_eq:
  assumes d: "cells h (position p) \<noteq> cells h (position q)"
    and m: "0 \<le> mass q"
    and q: "position q \<noteq> nxt h"
  shows "seedOrbit p q h =
    Some (p\<lparr>velocity := Suc (nxt h)\<rparr>,
      h\<lparr>cells := (cells h)
          (nxt h := vnormalize (vsub (cells h (position p)) (cells h (position q))),
           Suc (nxt h) :=
             vscale (Vector3 (- vy (vnormalize (vsub (cells h (position p)) (cells h (position q)))))
                      (vx (vnormalize (vsub (cells h (position p)) (cells h (position q))))) 0)
               (sqrt (G * mass q / vlength (vsub (cells h (position p)) (cells h (position q)))))),
        nxt := Suc (Suc (nxt h))\<rparr>)"
proof -
  define r where "r = vlength (vsub (cells h (position p)) (cells h (position q)))"
  have "vsub (cells h (position p)) (cells h (position q)) \<noteq> Vector3 0 0 0"
    using d by (cases "cells h (position p)", cases "cells h (position q)") (simp add: vsub_def)
  then have r: "r \<noteq> 0" "0 \<le> r"
    by (simp_all add: r_def vlength_eq_0 vlength_nonneg)
  have nonneg: "\<not> G * mass q / r < 0"
    using m r by (simp add: G_def not_less)
  show ?thesis
    using r(1) nonneg q
    by (simp add: seedOrbit_def getOrbitalVelocity_def distanceTo_def js_div_def js_sqrt_def
        clone_eq sub_def normalize_eq new_Vector3_def multiplyScalar_def r_def [symmetric])
qed

subsection \<open>The array of a trail\<close>

lemma set_pushTrail: "set (pushTrail t p) \<subseteq> insert p (set t)"
  by (cases t) (auto simp add: pushTrail_def dest: list.set_sel(2))

lemma length_pushTrail: "length t \<le> maxTrailLength \<Longrightarrow> length (pushTrail t p) \<le> maxTrailLength"
  by (simp add: pushTrail_def)

lemma map_pushTrail: "map f (pushTrail t p) = pushTrail (map f t) (f p)"
  by (simp add: pushTrail_def map_tl)

lemma pushTrail_lastN:
  "length t \<le> maxTrailLength \<Longrightarrow> pushTrail t p = lastN maxTrailLength (t @ [p])"
  by (cases t) (auto simp add: pushTrail_def lastN_def Suc_diff_le)

lemma pushTrail_last: "pushTrail t p \<noteq> [] \<and> last (pushTrail t p) = p"
  by (cases t) (auto simp add: pushTrail_def maxTrailLength_def)

lemma lastN_lastN_append: "lastN k (lastN k xs @ zs) = lastN k (xs @ zs)"
proof -
  have "length xs + length zs - (length xs - k + k) + (length xs - k) = length xs + length zs - k"
    by arith
  then show ?thesis
    by (simp add: lastN_def)
qed

lemma length_lastN: "length (lastN k xs) \<le> k"
  by (simp add: lastN_def)

subsection \<open>One tick\<close>

lemma separated_below:
  assumes "separated s"
  shows "position (bodyA s) < nxt (heap s)" "velocity (bodyA s) < nxt (heap s)"
     "position (bodyB s) < nxt (heap s)" "velocity (bodyB s) < nxt (heap s)"
     "position (bodyC s) < nxt (heap s)" "velocity (bodyC s) < nxt (heap s)"
  using assms by (simp_all add: separated_def vectorsOf_def)

lemma separated_distinct:
  assumes "separated s"
  shows "position (bodyA s) \<noteq> velocity (bodyA s)"
    "position (bodyA s) \<noteq> position (bodyB s)"
    "position (bodyA s) \<noteq> velocity (bodyB s)"
    "position (bodyA s) \<noteq> position (bodyC s)"
    "position (bodyA s) \<noteq> velocity (bodyC s)"
    "velocity (bodyA s) \<noteq> position (bodyB s)"
    "velocity (bodyA s) \<noteq> velocity (bodyB s)"
    "velocity (bodyA s) \<noteq> position (bodyC s)"
    "velocity (bodyA s) \<noteq> velocity (bodyC s)"
    "position (bodyB s) \<noteq> velocity (bodyB s)"
    "position (bodyB s) \<noteq> position (bodyC s)"
    "position (bodyB s) \<noteq> velocity (bodyC s)"
    "velocity (bodyB s) \<noteq> position (bodyC s)"
    "velocity (bodyB s) \<noteq> velocity (bodyC s)"
    "position (bodyC s) \<noteq> velocity (bodyC s)"
  using assms by (simp_all add: separated_def vectorsOf_def)

lemmas tick_unfold = updateBodies_def computeGravitationalForce_eq
  clone_eq add_def negate_def applyForce_eq updatePosition_eq updateTrail_eq Let_def

lemma tick_effect:
  assumes sep: "separated s"
    and ms: "mass (bodyA s) \<noteq> 0" "mass (bodyB s) \<noteq> 0" "mass (bodyC s) \<noteq> 0"
  shows "\<exists>s'. updateBodies s = Some s' \<and>
     bodyA s' = (bodyA s)\<lparr>trailPositions := pushTrail (trailPositions (bodyA s)) (nxt (heap s) + 15)\<rparr> \<and>
     bodyB s' = (bodyB s)\<lparr>trailPositions := pushTrail (trailPositions (bodyB s)) (nxt (heap s) + 16)\<rparr> \<and>
     bodyC s' = (bodyC s)\<lparr>trailPositions := pushTrail (trailPositions (bodyC s)) (nxt (heap s) + 17)\<rparr> \<and>
     nxt (heap s') = nxt (heap s) + 18 \<and>
     velOf s' (bodyA s') =
       vadd (velOf s (bodyA s)) (vscale (vscale (netForceA s) (1 / mass (bodyA s))) dt) \<and>
     velOf s' (bodyB s') =
       vadd (velOf s (bodyB s)) (vscale (vscale (netForceB s) (1 / mass (bodyB s))) dt) \<and>
     velOf s' (bodyC s') =
       vadd (velOf s (bodyC s)) (vscale (vscale (netForceC s) (1 / mass (bodyC s))) dt) \<and>
     posOf s' (bodyA s') = vadd (posOf s (bodyA s)) (vscale (velOf s' (bodyA s')) dt) \<and>
     posOf s' (bodyB s') = vadd (posOf s (bodyB s)) (vscale (velOf s' (bodyB s')) dt) \<and>
     posOf s' (bodyC s') = vadd (posOf s (bodyC s)) (vscale (velOf s' (bodyC s')) dt) \<and>
     cells (heap s') (nxt (heap s) + 15) = posOf s' (bodyA s') \<and>
     cells (heap s') (nxt (heap s) + 16) = posOf s' (bodyB s') \<and>
     cells (heap s') (nxt (heap s) + 17) = posOf s' (bodyC s') \<and>
     cells (heap s') (nxt (heap s)) = forceBetween s (bodyA s) (bodyB s) \<and>
     cells (heap s') (nxt (heap s) + 1) = forceBetween s (bodyA s) (bodyC s) \<and>
     cells (heap s') (nxt (heap s) + 2) = forceBetween s (bodyB s) (bodyC s) \<and>
     cells (heap s') (nxt (heap s) + 3) = netForceA s \<and>
     cells (heap s') (nxt (heap s) + 6) = netForceB s \<and>
     cells (heap s') (nxt (heap s) + 9) = netForceC s"
  using separated_below [OF sep]
  by (simp add: ms separated_distinct [OF sep] separated_distinct [OF sep, symmetric] tick_unfold
      posOf_def velOf_def forceBetween_def netForceA_def netForceB_def netForceC_def
      eval_nat_numeral)

lemma tick_Some:
  assumes "separated s" "mass (bodyA s) \<noteq> 0" "mass (bodyB s) \<noteq> 0" "mass (bodyC s) \<noteq> 0"
  shows "\<exists>s'. updateBodies s = Some s'"
  using tick_effect [OF assms] by blast

lemma tick_frame:
  assumes sep: "separated s"
    and ms: "mass (bodyA s) \<noteq> 0" "mass (bodyB s) \<noteq> 0" "mass (bodyC s) \<noteq> 0"
    and up: "updateBodies s = Some s'"
    and a: "a < nxt (heap s)" "a \<notin> set (vectorsOf s)"
  shows "cells (heap s') a = cells (heap s) a"
proof -
  have ne: "a \<noteq> position (bodyA s)" "a \<noteq> velocity (bodyA s)" "a \<noteq> position (bodyB s)"
    "a \<noteq> velocity (bodyB s)" "a \<noteq> position (bodyC s)" "a \<noteq> velocity (bodyC s)"
    using a(2) by (auto simp add: vectorsOf_def)
  have "updateBodies s = Some s' \<longrightarrow> cells (heap s') a = cells (heap s) a"
    using separated_below [OF sep] a(1)
    by (auto simp add: ms ne separated_distinct [OF sep] separated_distinct [OF sep, symmetric]
        tick_unfold)
  with up show ?thesis by simp
qed

lemma tick_untouched:
  assumes "separated s" "mass (bodyA s) \<noteq> 0" "mass (bodyB s) \<noteq> 0" "mass (bodyC s) \<noteq> 0"
    and "updateBodies s = Some s'"
  shows "untouched s s'"
  unfolding untouched_def using tick_frame [OF assms] by blast

lemma untouched_trans:
  assumes "untouched s t" "untouched t u" "vectorsOf t = vectorsOf s" "nxt (heap s) \<le> nxt (heap t)"
  shows "untouched s u"
  unfolding untouched_def
proof (intro allI impI)
  fix a assume a: "a < nxt (heap s)" "a \<notin> set (vectorsOf s)"
  then have "a < nxt (heap t)" "a \<notin> set (vectorsOf t)"
    using assms(3,4) by simp_all
  with assms(2) have "cells (heap u) a = cells (heap t) a"
    by (simp add: untouched_def)
  also from a assms(1) have "cells (heap t) a = cells (heap s) a"
    by (simp add: untouched_def)
  finally show "cells (heap u) a = cells (heap s) a" .
qed

lemma tick_separated:
  assumes sep: "separated s"
    and ms: "mass (bodyA s) \<noteq> 0" "mass (bodyB s) \<noteq> 0" "mass (bodyC s) \<noteq> 0"
    and up: "updateBodies s = Some s'"
  shows "separated s'" and "vectorsOf s' = vectorsOf s" and "nxt (heap s') = nxt (heap s) + 18"
    and "mass (bodyA s') = mass (bodyA s)" and "mass (bodyB s') = mass (bodyB s)"
    and "mass (bodyC s') = mass (bodyC s)"
proof -
  from tick_effect [OF sep ms] up
  have a: "bodyA s' = (bodyA s)\<lparr>trailPositions := pushTrail (trailPositions (bodyA s)) (nxt (heap s) + 15)\<rparr>"
    and b: "bodyB s' = (bodyB s)\<lparr>trailPositions := pushTrail (trailPositions (bodyB s)) (nxt (heap s) + 16)\<rparr>"
    and c: "bodyC s' = (bodyC s)\<lparr>trailPositions := pushTrail (trailPositions (bodyC s)) (nxt (heap s) + 17)\<rparr>"
    and n: "nxt (heap s') = nxt (heap s) + 18"
    by auto
  show v: "vectorsOf s' = vectorsOf s"
    by (simp add: vectorsOf_def a b c)
  show "nxt (heap s') = nxt (heap s) + 18"
    by (rule n)
  show "mass (bodyA s') = mass (bodyA s)" "mass (bodyB s') = mass (bodyB s)"
    "mass (bodyC s') = mass (bodyC s)"
    by (simp_all add: a b c)
  have old: "\<forall>x \<in> set (vectorsOf s) \<union> set (trailsOf s). x < nxt (heap s)"
    and disj: "set (vectorsOf s) \<inter> set (trailsOf s) = {}" and dist: "distinct (vectorsOf s)"
    using sep by (auto simp add: separated_def)
  have t: "set (trailsOf s') \<subseteq>
      set (trailsOf s) \<union> {nxt (heap s) + 15, nxt (heap s) + 16, nxt (heap s) + 17}"
    using set_pushTrail [of "trailPositions (bodyA s)" "nxt (heap s) + 15"]
      set_pushTrail [of "trailPositions (bodyB s)" "nxt (heap s) + 16"]
      set_pushTrail [of "trailPositions (bodyC s)" "nxt (heap s) + 17"]
    by (auto simp add: trailsOf_def a b c)
  have below: "\<forall>x \<in> set (vectorsOf s') \<union> set (trailsOf s'). x < nxt (heap s')"
  proof
    fix x assume "x \<in> set (vectorsOf s') \<union> set (trailsOf s')"
    then consider "x \<in> set (vectorsOf s) \<union> set (trailsOf s)"
      | "x \<in> {nxt (heap s) + 15, nxt (heap s) + 16, nxt (heap s) + 17}"
      using t v by auto
    then show "x < nxt (heap s')"
    proof cases
      case 1
      with old have "x < nxt (heap s)" by blast
      then show ?thesis by (simp add: n)
    next
      case 2
      then show ?thesis by (auto simp add: n)
    qed
  qed
  have "set (vectorsOf s') \<inter> set (trailsOf s') = {}"
  proof (rule ccontr)
    assume "set (vectorsOf s') \<inter> set (trailsOf s') \<noteq> {}"
    then obtain x where x: "x \<in> set (vectorsOf s)" "x \<in> set (trailsOf s')"
      by (auto simp add: v)
    from x(1) old have "x < nxt (heap s)" by blast
    moreover from x(1) disj have "x \<notin> set (trailsOf s)" by blast
    ultimately show False using x(2) t by auto
  qed
  with below dist show "separated s'"
    by (simp add: separated_def v)
qed

lemma tick_trail:
  assumes sep: "separated s"
    and ms: "mass (bodyA s) \<noteq> 0" "mass (bodyB s) \<noteq> 0" "mass (bodyC s) \<noteq> 0"
    and up: "updateBodies s = Some s'"
  shows "trailOf s' (bodyA s') = pushTrail (trailOf s (bodyA s)) (posOf s' (bodyA s'))"
    and "trailOf s' (bodyB s') = pushTrail (trailOf s (bodyB s)) (posOf s' (bodyB s'))"
    and "trailOf s' (bodyC s') = pushTrail (trailOf s (bodyC s)) (posOf s' (bodyC s'))"
proof -
  from tick_effect [OF sep ms] up
  have a: "bodyA s' = (bodyA s)\<lparr>trailPositions := pushTrail (trailPositions (bodyA s)) (nxt (heap s) + 15)\<rparr>"
    and b: "bodyB s' = (bodyB s)\<lparr>trailPositions := pushTrail (trailPositions (bodyB s)) (nxt (heap s) + 16)\<rparr>"
    and c: "bodyC s' = (bodyC s)\<lparr>trailPositions := pushTrail (trailPositions (bodyC s)) (nxt (heap s) + 17)\<rparr>"
    and p: "cells (heap s') (nxt (heap s) + 15) = posOf s' (bodyA s')"
      "cells (heap s') (nxt (heap s) + 16) = posOf s' (bodyB s')"
      "cells (heap s') (nxt (heap s) + 17) = posOf s' (bodyC s')"
    by auto
  have keep: "map (cells (heap s')) t = map (cells (heap s)) t" if "set t \<subseteq> set (trailsOf s)" for t
  proof (rule map_cong [OF refl])
    fix x assume "x \<in> set t"
    with that have "x \<in> set (trailsOf s)" by blast
    with sep have "x < nxt (heap s)" "x \<notin> set (vectorsOf s)"
      by (auto simp add: separated_def)
    then show "cells (heap s') x = cells (heap s) x"
      by (rule tick_frame [OF sep ms up])
  qed
  have "trailOf s' (bodyA s') =
      pushTrail (map (cells (heap s')) (trailPositions (bodyA s))) (posOf s' (bodyA s'))"
    by (simp add: trailOf_def a map_pushTrail p [unfolded a])
  also have "map (cells (heap s')) (trailPositions (bodyA s)) = trailOf s (bodyA s)"
    unfolding trailOf_def by (rule keep) (auto simp add: trailsOf_def)
  finally show "trailOf s' (bodyA s') = pushTrail (trailOf s (bodyA s)) (posOf s' (bodyA s'))" .
  have "trailOf s' (bodyB s') =
      pushTrail (map (cells (heap s')) (trailPositions (bodyB s))) (posOf s' (bodyB s'))"
    by (simp add: trailOf_def b map_pushTrail p [unfolded b])
  also have "map (cells (heap s')) (trailPositions (bodyB s)) = trailOf s (bodyB s)"
    unfolding trailOf_def by (rule keep) (auto simp add: trailsOf_def)
  finally show "trailOf s' (bodyB s') = pushTrail (trailOf s (bodyB s)) (posOf s' (bodyB s'))" .
  have "trailOf s' (bodyC s') =
      pushTrail (map (cells (heap s')) (trailPositions (bodyC s))) (posOf s' (bodyC s'))"
    by (simp add: trailOf_def c map_pushTrail p [unfolded c])
  also have "map (cells (heap s')) (trailPositions (bodyC s)) = trailOf s (bodyC s)"
    unfolding trailOf_def by (rule keep) (auto simp add: trailsOf_def)
  finally show "trailOf s' (bodyC s') = pushTrail (trailOf s (bodyC s)) (posOf s' (bodyC s'))" .
qed

lemma tick_last:
  assumes sep: "separated s"
    and ms: "mass (bodyA s) \<noteq> 0" "mass (bodyB s) \<noteq> 0" "mass (bodyC s) \<noteq> 0"
    and up: "updateBodies s = Some s'"
  shows "trailTracks s' (bodyA s')" and "trailTracks s' (bodyB s')" and "trailTracks s' (bodyC s')"
proof -
  from tick_effect [OF sep ms] up
  have a: "bodyA s' = (bodyA s)\<lparr>trailPositions := pushTrail (trailPositions (bodyA s)) (nxt (heap s) + 15)\<rparr>"
    and b: "bodyB s' = (bodyB s)\<lparr>trailPositions := pushTrail (trailPositions (bodyB s)) (nxt (heap s) + 16)\<rparr>"
    and c: "bodyC s' = (bodyC s)\<lparr>trailPositions := pushTrail (trailPositions (bodyC s)) (nxt (heap s) + 17)\<rparr>"
    and p: "cells (heap s') (nxt (heap s) + 15) = posOf s' (bodyA s')"
      "cells (heap s') (nxt (heap s) + 16) = posOf s' (bodyB s')"
      "cells (heap s') (nxt (heap s) + 17) = posOf s' (bodyC s')"
    by auto
  note below = separated_below [OF sep]
  have "trailPositions (bodyA s') = pushTrail (trailPositions (bodyA s)) (nxt (heap s) + 15)"
    and "position (bodyA s') = position (bodyA s)"
    by (simp_all add: a)
  then show "trailTracks s' (bodyA s')"
    using pushTrail_last [of "trailPositions (bodyA s)" "nxt (heap s) + 15"] p(1) below(1)
    by (simp add: trailTracks_def)
  have "trailPositions (bodyB s') = pushTrail (trailPositions (bodyB s)) (nxt (heap s) + 16)"
    and "position (bodyB s') = position (bodyB s)"
    by (simp_all add: b)
  then show "trailTracks s' (bodyB s')"
    using pushTrail_last [of "trailPositions (bodyB s)" "nxt (heap s) + 16"] p(2) below(3)
    by (simp add: trailTracks_def)
  have "trailPositions (bodyC s') = pushTrail (trailPositions (bodyC s)) (nxt (heap s) + 17)"
    and "position (bodyC s') = position (bodyC s)"
    by (simp_all add: c)
  then show "trailTracks s' (bodyC s')"
    using pushTrail_last [of "trailPositions (bodyC s)" "nxt (heap s) + 17"] p(3) below(5)
    by (simp add: trailTracks_def)
qed

lemma net_forces_cancel:
  "vadd (vadd (netForceA s) (netForceB s)) (netForceC s) = Vector3 0 0 0"
  by (simp add: netForceA_def netForceB_def netForceC_def vadd_def vnegate_def)

lemma momentum_step:
  assumes "ma \<noteq> 0" "mb \<noteq> 0" "mc \<noteq> 0"
    and "vadd (vadd fa fb) fc = Vector3 0 0 0"
  shows "vadd (vadd (vscale (vadd va (vscale (vscale fa (1 / ma)) k)) ma)
                    (vscale (vadd vb (vscale (vscale fb (1 / mb)) k)) mb))
              (vscale (vadd vc (vscale (vscale fc (1 / mc)) k)) mc)
       = vadd (vadd (vscale va ma) (vscale vb mb)) (vscale vc mc)"
proof -
  have x: "vx fa + vx fb + vx fc = 0" and y: "vy fa + vy fb + vy fc = 0"
    and z: "vz fa + vz fb + vz fc = 0"
    using assms(4) by (simp_all add: vadd_def)
  have "(vx va + vx fa * (1 / ma) * k) * ma + (vx vb + vx fb * (1 / mb) * k) * mb
        + (vx vc + vx fc * (1 / mc) * k) * mc
      = vx va * ma + vx vb * mb + vx vc * mc + (vx fa + vx fb + vx fc) * k"
    using assms(1-3) by (simp add: field_simps)
  moreover have "(vy va + vy fa * (1 / ma) * k) * ma + (vy vb + vy fb * (1 / mb) * k) * mb
        + (vy vc + vy fc * (1 / mc) * k) * mc
      = vy va * ma + vy vb * mb + vy vc * mc + (vy fa + vy fb + vy fc) * k"
    using assms(1-3) by (simp add: field_simps)
  moreover have "(vz va + vz fa * (1 / ma) * k) * ma + (vz vb + vz fb * (1 / mb) * k) * mb
        + (vz vc + vz fc * (1 / mc) * k) * mc
      = vz va * ma + vz vb * mb + vz vc * mc + (vz fa + vz fb + vz fc) * k"
    using assms(1-3) by (simp add: field_simps)
  ultimately show ?thesis
    by (simp add: vadd_def vscale_def x y z)
qed

subsection \<open>The order of the bodies\<close>

lemma forceBetween_swap: "vnegate (forceBetween s a b) = forceBetween s b a"
  by (simp add: forceBetween_def forceOn_swap [symmetric])

lemma netForce_sym:
  "netForceA s = vadd (forceBetween s (bodyA s) (bodyB s)) (forceBetween s (bodyA s) (bodyC s))"
  "netForceB s = vadd (forceBetween s (bodyB s) (bodyA s)) (forceBetween s (bodyB s) (bodyC s))"
  "netForceC s = vadd (forceBetween s (bodyC s) (bodyA s)) (forceBetween s (bodyC s) (bodyB s))"
  by (simp_all add: netForceA_def netForceB_def netForceC_def forceBetween_swap)

lemma tick_values:
  assumes sep: "separated s"
    and ms: "mass (bodyA s) \<noteq> 0" "mass (bodyB s) \<noteq> 0" "mass (bodyC s) \<noteq> 0"
    and up: "updateBodies s = Some s'"
  shows "cells (heap s') (velocity (bodyA s)) =
      vadd (velOf s (bodyA s)) (vscale (vscale
        (vadd (forceBetween s (bodyA s) (bodyB s)) (forceBetween s (bodyA s) (bodyC s)))
        (1 / mass (bodyA s))) dt)"
    and "cells (heap s') (velocity (bodyB s)) =
      vadd (velOf s (bodyB s)) (vscale (vscale
        (vadd (forceBetween s (bodyB s) (bodyA s)) (forceBetween s (bodyB s) (bodyC s)))
        (1 / mass (bodyB s))) dt)"
    and "cells (heap s') (velocity (bodyC s)) =
      vadd (velOf s (bodyC s)) (vscale (vscale
        (vadd (forceBetween s (bodyC s) (bodyA s)) (forceBetween s (bodyC s) (bodyB s)))
        (1 / mass (bodyC s))) dt)"
    and "cells (heap s') (position (bodyA s)) =
      vadd (posOf s (bodyA s)) (vscale (cells (heap s') (velocity (bodyA s))) dt)"
    and "cells (heap s') (position (bodyB s)) =
      vadd (posOf s (bodyB s)) (vscale (cells (heap s') (velocity (bodyB s))) dt)"
    and "cells (heap s') (position (bodyC s)) =
      vadd (posOf s (bodyC s)) (vscale (cells (heap s') (velocity (bodyC s))) dt)"
proof -
  from tick_effect [OF sep ms] up
  have a: "bodyA s' = (bodyA s)\<lparr>trailPositions := pushTrail (trailPositions (bodyA s)) (nxt (heap s) + 15)\<rparr>"
    and b: "bodyB s' = (bodyB s)\<lparr>trailPositions := pushTrail (trailPositions (bodyB s)) (nxt (heap s) + 16)\<rparr>"
    and c: "bodyC s' = (bodyC s)\<lparr>trailPositions := pushTrail (trailPositions (bodyC s)) (nxt (heap s) + 17)\<rparr>"
    and v: "velOf s' (bodyA s') =
        vadd (velOf s (bodyA s)) (vscale (vscale (netForceA s) (1 / mass (bodyA s))) dt)"
      "velOf s' (bodyB s') =
        vadd (velOf s (bodyB s)) (vscale (vscale (netForceB s) (1 / mass (bodyB s))) dt)"
      "velOf s' (bodyC s') =
        vadd (velOf s (bodyC s)) (vscale (vscale (netForceC s) (1 / mass (bodyC s))) dt)"
    and p: "posOf s' (bodyA s') = vadd (posOf s (bodyA s)) (vscale (velOf s' (bodyA s')) dt)"
      "posOf s' (bodyB s') = vadd (posOf s (bodyB s)) (vscale (velOf s' (bodyB s')) dt)"
      "posOf s' (bodyC s') = vadd (posOf s (bodyC s)) (vscale (velOf s' (bodyC s')) dt)"
    by auto
  have va: "velOf s' (bodyA s') = cells (heap s') (velocity (bodyA s))"
    and vb: "velOf s' (bodyB s') = cells (heap s') (velocity (bodyB s))"
    and vc: "velOf s' (bodyC s') = cells (heap s') (velocity (bodyC s))"
    and pa: "posOf s' (bodyA s') = cells (heap s') (position (bodyA s))"
    and pb: "posOf s' (bodyB s') = cells (heap s') (position (bodyB s))"
    and pc: "posOf s' (bodyC s') = cells (heap s') (position (bodyC s))"
    by (simp_all add: velOf_def posOf_def a b c)
  show "cells (heap s') (velocity (bodyA s)) =
      vadd (velOf s (bodyA s)) (vscale (vscale
        (vadd (forceBetween s (bodyA s) (bodyB s)) (forceBetween s (bodyA s) (bodyC s)))
        (1 / mass (bodyA s))) dt)"
    using v(1) unfolding va netForce_sym .
  show "cells (heap s') (velocity (bodyB s)) =
      vadd (velOf s (bodyB s)) (vscale (vscale
        (vadd (forceBetween s (bodyB s) (bodyA s)) (forceBetween s (bodyB s) (bodyC s)))
        (1 / mass (bodyB s))) dt)"
    using v(2) unfolding vb netForce_sym .
  show "cells (heap s') (velocity (bodyC s)) =
      vadd (velOf s (bodyC s)) (vscale (vscale
        (vadd (forceBetween s (bodyC s) (bodyA s)) (forceBetween s (bodyC s) (bodyB s)))
        (1 / mass (bodyC s))) dt)"
    using v(3) unfolding vc netForce_sym .
  show "cells (heap s') (position (bodyA s)) =
      vadd (posOf s (bodyA s)) (vscale (cells (heap s') (velocity (bodyA s))) dt)"
    using p(1) unfolding va pa .
  show "cells (heap s') (position (bodyB s)) =
      vadd (posOf s (bodyB s)) (vscale (cells (heap s') (velocity (bodyB s))) dt)"
    using p(2) unfolding vb pb .
  show "cells (heap s') (position (bodyC s)) =
      vadd (posOf s (bodyC s)) (vscale (cells (heap s') (velocity (bodyC s))) dt)"
    using p(3) unfolding vc pc .
qed

lemma withOrder_simps:
  "bodyA (withOrder x y z s) = x" "bodyB (withOrder x y z s) = y" "bodyC (withOrder x y z s) = z"
  "heap (withOrder x y z s) = heap s"
  "posOf (withOrder x y z s) b = posOf s b" "velOf (withOrder x y z s) b = velOf s b"
  "forceBetween (withOrder x y z s) b c = forceBetween s b c"
  by (simp_all add: withOrder_def posOf_def velOf_def forceBetween_def)

lemma separated_withOrder:
  assumes "separated s" "(x, y, z) \<in> set (orders s)"
  shows "separated (withOrder x y z s)"
proof -
  from assms(2) have "set (vectorsOf (withOrder x y z s)) = set (vectorsOf s)"
    and "set (trailsOf (withOrder x y z s)) = set (trailsOf s)"
    and "distinct (vectorsOf s) \<longrightarrow> distinct (vectorsOf (withOrder x y z s))"
    by (auto simp add: orders_def vectorsOf_def trailsOf_def withOrder_simps)
  with assms(1) show ?thesis
    by (simp add: separated_def withOrder_simps)
qed

subsection \<open>The frames of the animation\<close>

lemma frames_run:
  assumes "separated s" "mass (bodyA s) \<noteq> 0" "mass (bodyB s) \<noteq> 0" "mass (bodyC s) \<noteq> 0"
  shows "\<exists>tr. animateThreeBodyProblem n s = Some tr \<and> length tr = n \<and>
    (\<forall>t \<in> set tr. separated t \<and> vectorsOf t = vectorsOf s \<and> nxt (heap s) \<le> nxt (heap t) \<and>
       trailTracks t (bodyA t) \<and> trailTracks t (bodyB t) \<and> trailTracks t (bodyC t) \<and>
       untouched s t)"
  using assms
proof (induction n arbitrary: s)
  case 0
  then show ?case by simp
next
  case (Suc n)
  note ms = Suc.prems(2-4)
  from tick_Some [OF Suc.prems] obtain s1 where s1: "updateBodies s = Some s1"
    by blast
  note inv = tick_separated [OF Suc.prems s1]
  note first = tick_untouched [OF Suc.prems s1]
  have ms1: "mass (bodyA s1) \<noteq> 0" "mass (bodyB s1) \<noteq> 0" "mass (bodyC s1) \<noteq> 0"
    using ms by (simp_all add: inv)
  from Suc.IH [OF inv(1) ms1] obtain tr where tr: "animateThreeBodyProblem n s1 = Some tr" "length tr = n"
    and rest: "\<forall>t \<in> set tr. separated t \<and> vectorsOf t = vectorsOf s1 \<and>
       nxt (heap s1) \<le> nxt (heap t) \<and>
       trailTracks t (bodyA t) \<and> trailTracks t (bodyB t) \<and> trailTracks t (bodyC t) \<and>
       untouched s1 t"
    by blast
  have fr: "animateThreeBodyProblem (Suc n) s = Some (s1 # tr)"
    by (simp add: s1 tr)
  have le: "nxt (heap s) \<le> nxt (heap s1)"
    by (simp add: inv)
  have "separated t \<and> vectorsOf t = vectorsOf s \<and> nxt (heap s) \<le> nxt (heap t) \<and>
       trailTracks t (bodyA t) \<and> trailTracks t (bodyB t) \<and> trailTracks t (bodyC t) \<and>
       untouched s t"
    if t: "t \<in> set (s1 # tr)" for t
  proof (cases "t = s1")
    case True
    then show ?thesis
      using inv(1,2) le tick_last [OF Suc.prems s1] first by simp
  next
    case False
    with t have "t \<in> set tr" by simp
    with rest have r: "separated t" "vectorsOf t = vectorsOf s1" "nxt (heap s1) \<le> nxt (heap t)"
      "trailTracks t (bodyA t)" "trailTracks t (bodyB t)" "trailTracks t (bodyC t)"
      "untouched s1 t"
      by blast+
    from first r(7) inv(2) le have "untouched s t"
      by (rule untouched_trans)
    with r(1-6) le show ?thesis
      by (simp add: inv)
  qed
  with fr tr(2) show ?case
    by simp
qed

lemma frames_trails:
  assumes "separated s" "mass (bodyA s) \<noteq> 0" "mass (bodyB s) \<noteq> 0" "mass (bodyC s) \<noteq> 0"
    and "length (trailPositions (bodyA s)) \<le> maxTrailLength"
    and "length (trailPositions (bodyB s)) \<le> maxTrailLength"
    and "length (trailPositions (bodyC s)) \<le> maxTrailLength"
  shows "\<exists>tr. animateThreeBodyProblem n s = Some tr \<and> length tr = n \<and>
    (\<forall>t \<in> set tr. length (trailPositions (bodyA t)) \<le> maxTrailLength \<and>
       length (trailPositions (bodyB t)) \<le> maxTrailLength \<and>
       length (trailPositions (bodyC t)) \<le> maxTrailLength) \<and>
    trailOf (last (s # tr)) (bodyA (last (s # tr))) =
      lastN maxTrailLength (trailOf s (bodyA s) @ map (\<lambda>t. posOf t (bodyA t)) tr) \<and>
    trailOf (last (s # tr)) (bodyB (last (s # tr))) =
      lastN maxTrailLength (trailOf s (bodyB s) @ map (\<lambda>t. posOf t (bodyB t)) tr) \<and>
    trailOf (last (s # tr)) (bodyC (last (s # tr))) =
      lastN maxTrailLength (trailOf s (bodyC s) @ map (\<lambda>t. posOf t (bodyC t)) tr)"
  using assms
proof (induction n arbitrary: s)
  case 0
  then show ?case
    by (simp add: lastN_def trailOf_def)
next
  case (Suc n)
  note sep = Suc.prems(1-4)
  from tick_Some [OF sep] obtain s1 where s1: "updateBodies s = Some s1"
    by blast
  note inv = tick_separated [OF sep s1]
  note tl = tick_trail [OF sep s1]
  have ms1: "mass (bodyA s1) \<noteq> 0" "mass (bodyB s1) \<noteq> 0" "mass (bodyC s1) \<noteq> 0"
    using sep(2-4) by (simp_all add: inv)
  have len: "length (trailOf s (bodyA s)) \<le> maxTrailLength"
    "length (trailOf s (bodyB s)) \<le> maxTrailLength"
    "length (trailOf s (bodyC s)) \<le> maxTrailLength"
    using Suc.prems(5-7) by (simp_all add: trailOf_def)
  have "length (trailOf s1 (bodyA s1)) \<le> maxTrailLength"
    "length (trailOf s1 (bodyB s1)) \<le> maxTrailLength"
    "length (trailOf s1 (bodyC s1)) \<le> maxTrailLength"
    unfolding tl using len by (simp_all add: length_pushTrail)
  then have len1: "length (trailPositions (bodyA s1)) \<le> maxTrailLength"
    "length (trailPositions (bodyB s1)) \<le> maxTrailLength"
    "length (trailPositions (bodyC s1)) \<le> maxTrailLength"
    by (simp_all add: trailOf_def)
  from Suc.IH [OF inv(1) ms1 len1] obtain tr where tr: "animateThreeBodyProblem n s1 = Some tr" "length tr = n"
    and bound: "\<forall>t \<in> set tr. length (trailPositions (bodyA t)) \<le> maxTrailLength \<and>
       length (trailPositions (bodyB t)) \<le> maxTrailLength \<and>
       length (trailPositions (bodyC t)) \<le> maxTrailLength"
    and win: "trailOf (last (s1 # tr)) (bodyA (last (s1 # tr))) =
      lastN maxTrailLength (trailOf s1 (bodyA s1) @ map (\<lambda>t. posOf t (bodyA t)) tr)"
    "trailOf (last (s1 # tr)) (bodyB (last (s1 # tr))) =
      lastN maxTrailLength (trailOf s1 (bodyB s1) @ map (\<lambda>t. posOf t (bodyB t)) tr)"
    "trailOf (last (s1 # tr)) (bodyC (last (s1 # tr))) =
      lastN maxTrailLength (trailOf s1 (bodyC s1) @ map (\<lambda>t. posOf t (bodyC t)) tr)"
    by blast
  have fr: "animateThreeBodyProblem (Suc n) s = Some (s1 # tr)"
    by (simp add: s1 tr)
  have l: "last (s # s1 # tr) = last (s1 # tr)"
    by simp
  have "trailOf (last (s # s1 # tr)) (bodyA (last (s # s1 # tr))) =
      lastN maxTrailLength (trailOf s (bodyA s) @ map (\<lambda>t. posOf t (bodyA t)) (s1 # tr))"
    unfolding l win tl by (simp add: pushTrail_lastN [OF len(1)] lastN_lastN_append)
  moreover have "trailOf (last (s # s1 # tr)) (bodyB (last (s # s1 # tr))) =
      lastN maxTrailLength (trailOf s (bodyB s) @ map (\<lambda>t. posOf t (bodyB t)) (s1 # tr))"
    unfolding l win tl by (simp add: pushTrail_lastN [OF len(2)] lastN_lastN_append)
  moreover have "trailOf (last (s # s1 # tr)) (bodyC (last (s # s1 # tr))) =
      lastN maxTrailLength (trailOf s (bodyC s) @ map (\<lambda>t. posOf t (bodyC t)) (s1 # tr))"
    unfolding l win tl by (simp add: pushTrail_lastN [OF len(3)] lastN_lastN_append)
  moreover have "\<forall>t \<in> set (s1 # tr). length (trailPositions (bodyA t)) \<le> maxTrailLength \<and>
       length (trailPositions (bodyB t)) \<le> maxTrailLength \<and>
       length (trailPositions (bodyC t)) \<le> maxTrailLength"
    using bound len1 by simp
  ultimately show ?case
    using fr tr(2) by simp
qed

subsection \<open>The initial state\<close>

lemma initialState_separated:
  "\<exists>s. initialState = Some s \<and> separated s \<and>
     mass (bodyA s) = 1 \<and> mass (bodyB s) = 1 \<and> mass (bodyC s) = 1 \<and>
     trailPositions (bodyA s) = [] \<and> trailPositions (bodyB s) = [] \<and> trailPositions (bodyC s) = []"
  by (simp add: initialState_def new_Vector3_def new_Body_def seedOrbit_eq
      separated_def vectorsOf_def trailsOf_def emptyStore_def)

subsection \<open>The range of doubles\<close>

lemma overflowAt_gt: "2 ^ 1023 < overflowAt"
proof -
  have "(2::real) ^ 970 < 2 ^ 1023"
    by (rule power_strict_increasing) simp_all
  moreover have "(2::real) ^ 1024 = 2 * 2 ^ 1023"
    by (simp add: power_Suc [symmetric] del: power_Suc)
  ultimately show ?thesis
    by (simp add: overflowAt_def)
qed

lemma underflowAt_lt: "underflowAt < 1 / 2 ^ 1074"
proof -
  have "(2::real) ^ 1074 < 2 ^ 1075"
    by (rule power_strict_increasing) simp_all
  then show ?thesis
    unfolding underflowAt_def by (simp add: frac_less2 del: power_Suc)
qed

lemma dbl_0: "dbl 0 = Some 0"
  using overflowAt_gt by (simp add: dbl_def underflowAt_def)

lemma between_0: "between a b 0"
  by (simp add: between_def)

lemma moderate_between: "moderate x \<longleftrightarrow> between 100 100 x"
  by (simp add: moderate_def between_def)

lemma between_mono:
  assumes "between a b x" "a \<le> a'" "b \<le> b'"
  shows "between a' b' x"
proof -
  have "(1::real) / 2 ^ a' \<le> 1 / 2 ^ a"
    using assms(2) by (simp add: frac_le power_increasing)
  moreover have "(2::real) ^ b \<le> 2 ^ b'"
    using assms(3) by (simp add: power_increasing)
  ultimately have "x \<noteq> 0 \<longrightarrow> 1 / 2 ^ a' \<le> \<bar>x\<bar> \<and> \<bar>x\<bar> \<le> 2 ^ b'"
    using assms(1) unfolding between_def by linarith
  then show ?thesis
    unfolding between_def by blast
qed

lemma between_dbl:
  assumes "between a b x" "a \<le> 1074" "b \<le> 1023"
  shows "dbl x = Some x"
proof (cases "x = 0")
  case True
  then show ?thesis by (simp add: dbl_0)
next
  case False
  from between_mono [OF assms] False
  have "1 / 2 ^ 1074 \<le> \<bar>x\<bar>" "\<bar>x\<bar> \<le> 2 ^ 1023"
    by (simp_all add: between_def)
  with overflowAt_gt underflowAt_lt have "\<not> overflowAt \<le> \<bar>x\<bar>" "\<not> \<bar>x\<bar> \<le> underflowAt"
    by linarith+
  then show ?thesis
    by (simp add: dbl_def)
qed

lemma between_mult:
  assumes "between a b x" "between c d y"
  shows "between (a + c) (b + d) (x * y)"
proof (cases "x = 0 \<or> y = 0")
  case True
  then show ?thesis by (auto simp add: between_def)
next
  case False
  with assms have x: "1 / 2 ^ a \<le> \<bar>x\<bar>" "\<bar>x\<bar> \<le> 2 ^ b"
    and y: "1 / 2 ^ c \<le> \<bar>y\<bar>" "\<bar>y\<bar> \<le> 2 ^ d"
    by (auto simp add: between_def)
  have "(1 / 2 ^ a) * (1 / 2 ^ c) \<le> \<bar>x\<bar> * \<bar>y\<bar>"
    using x(1) y(1) by (intro mult_mono) simp_all
  moreover have "\<bar>x\<bar> * \<bar>y\<bar> \<le> 2 ^ b * 2 ^ d"
    using x(2) y(2) by (intro mult_mono) simp_all
  ultimately show ?thesis
    by (simp add: between_def abs_mult power_add)
qed

lemma between_minus: "between a b (- x) \<longleftrightarrow> between a b x"
  by (simp add: between_def)

lemma between_inverse:
  assumes "between a b x" "x \<noteq> 0"
  shows "between b a (1 / x)"
proof -
  from assms have x: "1 / 2 ^ a \<le> \<bar>x\<bar>" "\<bar>x\<bar> \<le> 2 ^ b" "0 < \<bar>x\<bar>"
    by (auto simp add: between_def)
  have "1 / 2 ^ b \<le> 1 / \<bar>x\<bar>"
    using x(2,3) by (simp add: frac_le)
  moreover have "1 / \<bar>x\<bar> \<le> 2 ^ a"
  proof -
    have "1 \<le> \<bar>x\<bar> * 2 ^ a"
      using x(1) by (simp add: field_simps)
    then show ?thesis
      using x(3) by (simp add: field_simps)
  qed
  ultimately show ?thesis
    by (simp add: between_def)
qed

lemma between_divide:
  assumes "between a b x" "between c d y" "y \<noteq> 0"
  shows "between (a + d) (b + c) (x / y)"
proof -
  have "between (a + d) (b + c) (x * (1 / y))"
    using assms(1) between_inverse [OF assms(2,3)] by (rule between_mult)
  then show ?thesis by simp
qed

lemma between_add_nonneg:
  assumes "between a b x" "between a b y" "0 \<le> x" "0 \<le> y"
  shows "between a (Suc b) (x + y)"
proof (cases "x = 0")
  case True
  with assms(2) show ?thesis
    by (simp add: between_mono)
next
  case False
  with assms(1,3) have x: "1 / 2 ^ a \<le> x" "x \<le> 2 ^ b"
    by (auto simp add: between_def)
  from assms(2,4) have y: "y \<le> 2 ^ b"
    by (auto simp add: between_def)
  have "1 / 2 ^ a \<le> x + y" "x + y \<le> 2 * 2 ^ b"
    using x y assms(4) by linarith+
  with assms(3,4) show ?thesis
    by (simp add: between_def)
qed

lemma between_sqrt:
  assumes "between (2 * a) (2 * b) x" "0 \<le> x"
  shows "between a b (sqrt x)"
proof (cases "x = 0")
  case True
  then show ?thesis by (simp add: between_def)
next
  case False
  with assms have x: "1 / 2 ^ (2 * a) \<le> x" "x \<le> 2 ^ (2 * b)"
    by (auto simp add: between_def)
  have "sqrt (1 / 2 ^ (2 * a)) \<le> sqrt x" "sqrt x \<le> sqrt (2 ^ (2 * b))"
    using x by simp_all
  moreover have "sqrt (1 / 2 ^ (2 * a)) = 1 / 2 ^ a" "sqrt (2 ^ (2 * b)) = (2::real) ^ b"
    by (simp_all add: power_mult real_sqrt_divide power2_eq_square [symmetric]
        power_mult_distrib [symmetric] mult.commute)
  ultimately show ?thesis
    using assms(2) by (simp add: between_def)
qed

lemma between_1: "between a b 1"
proof -
  have "(1::real) \<le> 2 ^ a" "(1::real) \<le> 2 ^ b"
    by (simp_all add: one_le_power)
  then show ?thesis
    by (simp add: between_def field_simps)
qed

lemma vmoderate_vbetween: "vmoderate u \<longleftrightarrow> vbetween 100 100 u"
  by (simp add: vmoderate_def vbetween_def moderate_between)

lemma vsub_dbl_exact:
  assumes "vmoderate (vsub u v)"
  shows "vsub_dbl u v = Some (vsub u v)"
proof -
  from assms have "between 100 100 (vx u - vx v)" "between 100 100 (vy u - vy v)"
    "between 100 100 (vz u - vz v)"
    by (simp_all add: vmoderate_vbetween vbetween_def vsub_def)
  then have "dbl (vx u - vx v) = Some (vx u - vx v)" "dbl (vy u - vy v) = Some (vy u - vy v)"
    "dbl (vz u - vz v) = Some (vz u - vz v)"
    by (simp_all add: between_dbl)
  then show ?thesis
    by (simp add: vsub_dbl_def dbl_sub_def vsub_def)
qed

lemma vscale_dbl_exact:
  assumes "vbetween a b u" "between c d k" "a + c \<le> 1074" "b + d \<le> 1023"
  shows "vscale_dbl u k = Some (vscale u k)" and "vbetween (a + c) (b + d) (vscale u k)"
proof -
  from assms(1,2) have b: "between (a + c) (b + d) (vx u * k)" "between (a + c) (b + d) (vy u * k)"
    "between (a + c) (b + d) (vz u * k)"
    by (simp_all add: vbetween_def between_mult)
  then show "vbetween (a + c) (b + d) (vscale u k)"
    by (simp add: vbetween_def vscale_def)
  from b assms(3,4) have "dbl (vx u * k) = Some (vx u * k)" "dbl (vy u * k) = Some (vy u * k)"
    "dbl (vz u * k) = Some (vz u * k)"
    by (simp_all add: between_dbl)
  then show "vscale_dbl u k = Some (vscale u k)"
    by (simp add: vscale_dbl_def dbl_mul_def vscale_def)
qed

lemma vlength_dbl_exact:
  assumes "vmoderate u"
  shows "vlength_dbl u = Some (vlength u)" and "between 100 101 (vlength u)"
proof -
  from assms have c: "between 100 100 (vx u)" "between 100 100 (vy u)" "between 100 100 (vz u)"
    by (simp_all add: vmoderate_vbetween vbetween_def)
  have sq: "between 200 200 (vx u * vx u)" "between 200 200 (vy u * vy u)"
    "between 200 200 (vz u * vz u)"
    using between_mult [OF c(1) c(1)] between_mult [OF c(2) c(2)] between_mult [OF c(3) c(3)]
    by simp_all
  have xy: "between 200 201 (vx u * vx u + vy u * vy u)"
    using between_add_nonneg [OF sq(1) sq(2)] by simp
  have "between 200 202 (vx u * vx u + vy u * vy u + vz u * vz u)"
    using between_add_nonneg [OF xy between_mono [OF sq(3), of 200 201]] by simp
  then have q: "between (2 * 100) (2 * 101) (vx u * vx u + vy u * vy u + vz u * vz u)"
    by simp
  have l: "between 100 101 (sqrt (vx u * vx u + vy u * vy u + vz u * vz u))"
    by (rule between_sqrt [OF q]) simp
  then show "between 100 101 (vlength u)"
    by (simp add: vlength_def)
  have "dbl (vx u * vx u) = Some (vx u * vx u)" "dbl (vy u * vy u) = Some (vy u * vy u)"
    "dbl (vz u * vz u) = Some (vz u * vz u)"
    "dbl (vx u * vx u + vy u * vy u) = Some (vx u * vx u + vy u * vy u)"
    "dbl (vx u * vx u + vy u * vy u + vz u * vz u) = Some (vx u * vx u + vy u * vy u + vz u * vz u)"
    "dbl (sqrt (vx u * vx u + vy u * vy u + vz u * vz u)) =
      Some (sqrt (vx u * vx u + vy u * vy u + vz u * vz u))"
    using sq xy q l by (simp_all add: between_dbl)
  moreover have "\<not> vx u * vx u + vy u * vy u + vz u * vz u < 0"
    by (simp add: not_less)
  ultimately show "vlength_dbl u = Some (vlength u)"
    by (simp add: vlength_dbl_def dbl_mul_def dbl_add_def dbl_sqrt_def vlength_def)
qed

lemma vnormalize_dbl_exact:
  assumes "vmoderate u"
  shows "vscale_dbl u (1 / (if vlength u = 0 then 1 else vlength u)) = Some (vnormalize u)"
    and "dbl (1 / (if vlength u = 0 then 1 else vlength u)) =
      Some (1 / (if vlength u = 0 then 1 else vlength u))"
    and "vbetween 201 200 (vnormalize u)"
proof -
  let ?s = "if vlength u = 0 then 1 else vlength u"
  have s: "between 100 101 ?s" "?s \<noteq> 0"
    using vlength_dbl_exact(2) [OF assms] by (simp_all add: between_1)
  from between_inverse [OF s] have r: "between 101 100 (1 / ?s)" .
  then show "dbl (1 / ?s) = Some (1 / ?s)"
    by (rule between_dbl) simp_all
  from assms have u: "vbetween 100 100 u"
    by (simp add: vmoderate_vbetween)
  from vscale_dbl_exact [OF u r] show "vscale_dbl u (1 / ?s) = Some (vnormalize u)"
    and "vbetween 201 200 (vnormalize u)"
    by (simp_all add: vnormalize_eq)
qed

lemma between_clamp:
  assumes "between 100 101 l"
  shows "between 4 101 (max l minDistance)" and "max l minDistance \<noteq> 0"
proof -
  define hi :: real where "hi = 2 ^ 101"
  define lo :: real where "lo = 1 / 2 ^ 4"
  have m: "minDistance \<le> max l minDistance" "0 < minDistance"
    by (simp_all add: minDistance_def)
  have lo: "lo \<le> minDistance"
    by (simp add: minDistance_def lo_def)
  have "(1::real) \<le> 2 ^ 101"
    by (rule one_le_power) simp
  then have hi: "minDistance \<le> hi"
    unfolding hi_def minDistance_def by linarith
  have l: "l \<noteq> 0 \<longrightarrow> \<bar>l\<bar> \<le> hi"
    using assms unfolding between_def hi_def by blast
  have "max l minDistance \<le> hi"
  proof (cases "l \<le> minDistance")
    case True
    with hi show ?thesis by (simp add: max_def)
  next
    case False
    with m(2) l have "l \<le> hi" by linarith
    with hi show ?thesis by (simp add: max_def)
  qed
  with m lo have "lo \<le> \<bar>max l minDistance\<bar> \<and> \<bar>max l minDistance\<bar> \<le> hi"
    by linarith
  then show "between 4 101 (max l minDistance)"
    unfolding between_def lo_def hi_def by blast
  show "max l minDistance \<noteq> 0"
    using clamp_pos [of l] by simp
qed

lemma sub_dbl_exact:
  assumes "vmoderate (vsub (cells h a) (cells h b))"
  shows "sub_dbl a b h = Some (sub a b h)"
  by (simp add: sub_dbl_def sub_def vsub_dbl_exact [OF assms])

lemma length_dbl_exact:
  assumes "vmoderate (cells h a)"
  shows "length_dbl a h = Some (length_of a h)"
  by (simp add: length_dbl_def length_of_def vlength_dbl_exact(1) [OF assms])

lemma normalize_dbl_exact:
  assumes "vmoderate (cells h a)"
  shows "normalize_dbl a h = Some (h\<lparr>cells := (cells h)(a := vnormalize (cells h a))\<rparr>)"
proof -
  note n = vnormalize_dbl_exact [OF assms]
  have "(if vlength (cells h a) = 0 then 1 else vlength (cells h a)) \<noteq> 0"
    by simp
  then show ?thesis
    unfolding normalize_dbl_def length_dbl_def vlength_dbl_exact(1) [OF assms]
      divideScalar_dbl_def dbl_div_def multiplyScalar_dbl_def
    by (simp only: n Option.bind.bind_lunit if_False)
qed

lemma multiplyScalar_dbl_exact:
  assumes "vbetween a b (cells h x)" "between c d k" "a + c \<le> 1074" "b + d \<le> 1023"
  shows "multiplyScalar_dbl x k h = Some (multiplyScalar x k h)"
  by (simp add: multiplyScalar_dbl_def multiplyScalar_def vscale_dbl_exact(1) [OF assms])

lemma computeGravitationalForce_dbl_exact:
  assumes a: "position body1 \<noteq> nxt h"
    and d: "vmoderate (vsub (cells h (position body2)) (cells h (position body1)))"
    and m: "moderate (mass body1)" "moderate (mass body2)"
  shows "computeGravitationalForce_dbl body1 body2 h =
     Some (nxt h, h\<lparr>cells := (cells h)(nxt h :=
        forceOn (cells h (position body1)) (mass body1) (cells h (position body2)) (mass body2)),
        nxt := Suc (nxt h)\<rparr>)"
proof -
  let ?d = "vsub (cells h (position body2)) (cells h (position body1))"
  let ?D = "max (vlength ?d) minDistance"
  let ?F = "G * mass body1 * mass body2 / (?D * ?D)"
  note l = vlength_dbl_exact [OF d]
  note c = between_clamp [OF l(2)]
  have g: "between 100 100 (G * mass body1)" "between 200 200 (G * mass body1 * mass body2)"
    using m between_mult [of 100 100 "mass body1" 100 100 "mass body2"]
    by (simp_all add: G_def moderate_between)
  have dd: "between 8 202 (?D * ?D)" "?D * ?D \<noteq> 0"
    using between_mult [OF c(1) c(1)] c(2) by simp_all
  have f: "between 402 208 ?F"
    using between_divide [OF g(2) dd] by simp
  have e: "dbl (G * mass body1) = Some (G * mass body1)"
    "dbl (G * mass body1 * mass body2) = Some (G * mass body1 * mass body2)"
    "dbl (?D * ?D) = Some (?D * ?D)" "dbl ?F = Some ?F"
    using g dd(1) f by (simp_all add: between_dbl)
  have n: "vbetween 201 200 (vnormalize ?d)"
    by (rule vnormalize_dbl_exact(3) [OF d])
  have s: "vscale_dbl (vnormalize ?d) ?F = Some (vscale (vnormalize ?d) ?F)"
    by (rule vscale_dbl_exact(1) [OF n f]) simp_all
  show ?thesis
    using a dd(2)
    by (simp add: computeGravitationalForce_dbl_def clone_eq sub_dbl_exact d length_dbl_exact
        normalize_dbl_exact sub_def length_of_def clamp_max dbl_mul_def dbl_div_def e
        multiplyScalar_dbl_def s forceOn_def Let_def del: mult_eq_0_iff)
qed

lemma vsub_nonzero: "u \<noteq> v \<Longrightarrow> vsub u v \<noteq> Vector3 0 0 0"
  by (cases u, cases v) (simp add: vsub_def)

lemma seedOrbit_orbitVelocity:
  assumes "cells h (position p) \<noteq> cells h (position q)" "0 \<le> mass q" "position q \<noteq> nxt h"
  shows "seedOrbit p q h =
    Some (p\<lparr>velocity := Suc (nxt h)\<rparr>,
      h\<lparr>cells := (cells h)
          (nxt h := vnormalize (vsub (cells h (position p)) (cells h (position q))),
           Suc (nxt h) := orbitVelocity (cells h (position p)) (cells h (position q)) (mass q)),
        nxt := Suc (Suc (nxt h))\<rparr>)"
proof -
  have "vsub (cells h (position p)) (cells h (position q)) \<noteq> Vector3 0 0 0"
    using assms(1) by (rule vsub_nonzero)
  then have "vnormalize (vsub (cells h (position p)) (cells h (position q))) =
      vdivide (vsub (cells h (position p)) (cells h (position q)))
        (vlength (vsub (cells h (position p)) (cells h (position q))))"
    by (simp add: vnormalize_def vlength_eq_0)
  then show ?thesis
    unfolding seedOrbit_eq [OF assms] orbitVelocity_def Let_def by simp
qed

lemma seedOrbit_dbl_exact:
  assumes nz: "cells h (position p) \<noteq> cells h (position q)"
    and d: "vmoderate (vsub (cells h (position p)) (cells h (position q)))"
    and m: "moderate (mass q)" "0 \<le> mass q"
    and q: "position q \<noteq> nxt h"
  shows "seedOrbit_dbl p q h = seedOrbit p q h"
proof -
  let ?d = "vsub (cells h (position p)) (cells h (position q))"
  let ?L = "vlength ?d"
  let ?v = "sqrt (G * mass q / ?L)"
  let ?V = "Vector3 (- vy (vnormalize ?d)) (vx (vnormalize ?d)) 0"
  note l = vlength_dbl_exact [OF d]
  have L: "?L \<noteq> 0" "0 \<le> ?L"
    using vsub_nonzero [OF nz] by (simp_all add: vlength_eq_0 vlength_nonneg)
  have g: "between 100 100 (G * mass q)"
    using m(1) by (simp add: G_def moderate_between)
  have r: "between 201 200 (G * mass q / ?L)"
    using between_divide [OF g l(2) L(1)] by simp
  then have "between (2 * 101) (2 * 100) (G * mass q / ?L)"
    by (rule between_mono) simp_all
  moreover have nn: "0 \<le> G * mass q / ?L"
    using m(2) L(2) by (simp add: G_def)
  ultimately have v: "between 101 100 ?v"
    by (rule between_sqrt)
  have e: "dbl (G * mass q) = Some (G * mass q)" "dbl (G * mass q / ?L) = Some (G * mass q / ?L)"
    "dbl ?v = Some ?v"
    using g r v by (simp_all add: between_dbl)
  have speed: "getOrbitalVelocity_dbl p q h = Some ?v"
    using L(1) nn
    by (simp add: getOrbitalVelocity_dbl_def distanceTo_dbl_def vsub_dbl_exact [OF d] l(1)
        dbl_mul_def dbl_div_def dbl_sqrt_def e not_less)
  have n: "vbetween 201 200 (vnormalize ?d)"
    by (rule vnormalize_dbl_exact(3) [OF d])
  then have "vbetween 201 200 ?V"
    by (simp add: vbetween_def between_minus between_0)
  from vscale_dbl_exact(1) [OF this v]
  have s: "vscale_dbl ?V ?v = Some (vscale ?V ?v)"
    by simp
  show ?thesis
    unfolding seedOrbit_eq [OF nz m(2) q]
    using q
    by (simp add: seedOrbit_dbl_def speed clone_eq sub_dbl_exact d normalize_dbl_exact sub_def
        new_Vector3_def multiplyScalar_dbl_def s)
qed

lemma dbl_below:
  assumes "\<bar>x\<bar> < overflowAt"
  shows "\<exists>y. dbl x = Some y \<and> \<bar>y\<bar> \<le> \<bar>x\<bar>"
  using assms by (simp add: dbl_def)

lemma dbl_minDistance_sq: "dbl (minDistance * minDistance) = Some (minDistance * minDistance)"
proof -
  have "between 7 0 (minDistance * minDistance)"
    by (simp add: between_def minDistance_def)
  then show ?thesis
    by (rule between_dbl) simp_all
qed

lemma dbl_1: "dbl 1 = Some 1"
  by (rule between_dbl [OF between_1 [of 0 0]]) simp_all

lemma computeGravitationalForce_dbl_coincident:
  assumes a: "position body1 \<noteq> nxt h"
    and p: "cells h (position body1) = cells h (position body2)"
    and m1: "\<bar>G * mass body1\<bar> < overflowAt"
    and m2: "\<bar>G * mass body1 * mass body2\<bar> / (minDistance * minDistance) < overflowAt"
  shows "computeGravitationalForce_dbl body1 body2 h =
     Some (nxt h, h\<lparr>cells := (cells h)(nxt h := Vector3 0 0 0), nxt := Suc (nxt h)\<rparr>)"
proof -
  from dbl_below [OF m1] obtain g where g: "dbl (G * mass body1) = Some g"
    "\<bar>g\<bar> \<le> \<bar>G * mass body1\<bar>"
    by blast
  have sq: "minDistance * minDistance \<le> 1" "0 < minDistance * minDistance"
    by (simp_all add: minDistance_def)
  have "\<bar>g * mass body2\<bar> \<le> \<bar>G * mass body1 * mass body2\<bar>"
    using g(2) by (simp add: abs_mult mult_right_mono)
  moreover have le: "\<bar>G * mass body1 * mass body2\<bar>
      \<le> \<bar>G * mass body1 * mass body2\<bar> / (minDistance * minDistance)"
    using divide_left_mono [OF sq(1), of "\<bar>G * mass body1 * mass body2\<bar>"] sq(2) by simp
  ultimately have "\<bar>g * mass body2\<bar> < overflowAt"
    using m2 by linarith
  from dbl_below [OF this] obtain k where k: "dbl (g * mass body2) = Some k"
    "\<bar>k\<bar> \<le> \<bar>g * mass body2\<bar>"
    by blast
  have "\<bar>k\<bar> \<le> \<bar>G * mass body1 * mass body2\<bar>"
    using k(2) \<open>\<bar>g * mass body2\<bar> \<le> \<bar>G * mass body1 * mass body2\<bar>\<close> by linarith
  then have "\<bar>k / (minDistance * minDistance)\<bar>
      \<le> \<bar>G * mass body1 * mass body2\<bar> / (minDistance * minDistance)"
    using sq(2) by (simp add: divide_right_mono)
  with m2 have "\<bar>k / (minDistance * minDistance)\<bar> < overflowAt"
    by linarith
  from dbl_below [OF this] obtain f where f: "dbl (k / (minDistance * minDistance)) = Some f"
    by blast
  have z: "vlength (Vector3 0 0 0) = 0"
    by (simp add: vlength_def)
  have md: "0 < minDistance" "minDistance \<noteq> 0"
    by (simp_all add: minDistance_def)
  show ?thesis
    using a
    by (simp add: computeGravitationalForce_dbl_def clone_eq p sub_dbl_def vsub_dbl_def dbl_sub_def
        dbl_0 length_dbl_def vlength_dbl_def dbl_mul_def dbl_add_def dbl_sqrt_def
        md g k dbl_minDistance_sq
        dbl_div_def f normalize_dbl_def divideScalar_dbl_def dbl_1 multiplyScalar_dbl_def
        vscale_dbl_def)
qed

lemma dbl_tiny_facts:
  "dbl (1 / 10 ^ 200) = Some (1 / 10 ^ 200)"
  "dbl (1 / 10 ^ 200 * (1 / 10 ^ 200)) = Some 0"
  "dbl (1 / 10 ^ 200 * 100) = Some (1 / 10 ^ 198)"
proof -
  have "between 665 0 (1 / 10 ^ 200)"
    by (simp add: between_def)
  then show "dbl (1 / 10 ^ 200) = Some (1 / 10 ^ 200)"
    by (rule between_dbl) simp_all
  have "\<bar>(1::real) / 10 ^ 200 * (1 / 10 ^ 200)\<bar> \<le> underflowAt"
    by (simp add: underflowAt_def)
  moreover have "\<not> overflowAt \<le> \<bar>(1::real) / 10 ^ 200 * (1 / 10 ^ 200)\<bar>"
    using overflowAt_gt by simp
  ultimately show "dbl (1 / 10 ^ 200 * (1 / 10 ^ 200)) = Some 0"
    unfolding dbl_def by (simp only: if_True if_False)
  have e: "(1::real) / 10 ^ 200 * 100 = 1 / 10 ^ 198"
    by simp
  have "between 658 0 ((1::real) / 10 ^ 198)"
    by (simp add: between_def)
  then show "dbl (1 / 10 ^ 200 * 100) = Some (1 / 10 ^ 198)"
    unfolding e by (rule between_dbl) simp_all
qed

lemma dbl_huge_facts:
  "dbl (10 ^ 200) = Some (10 ^ 200)" "dbl (10 ^ 200 * 10 ^ 200) = None"
proof -
  have "between 0 665 (10 ^ 200)"
    by (simp add: between_def)
  then show "dbl (10 ^ 200) = Some (10 ^ 200)"
    by (rule between_dbl) simp_all
  have "overflowAt \<le> \<bar>10 ^ 200 * 10 ^ 200\<bar>"
    by (simp add: overflowAt_def)
  then show "dbl (10 ^ 200 * 10 ^ 200) = None"
    by (simp add: dbl_def)
qed

lemma dbl_100: "dbl (1 / (minDistance * minDistance)) = Some 100"
proof -
  have e: "1 / (minDistance * minDistance) = 100"
    by (simp add: minDistance_def)
  have "between 0 7 (100::real)"
    by (simp add: between_def)
  then show ?thesis
    unfolding e by (rule between_dbl) simp_all
qed

lemma orbitVelocity_scenario: "orbitVelocity (Vector3 1 0 0) (Vector3 0 0 0) 1 = Vector3 0 1 0"
  by (simp add: orbitVelocity_def vsub_def vlength_def vdivide_def vscale_def G_def)

lemma initialState_seeded:
  "\<exists>s. initialState = Some s \<and>
     posOf s (bodyA s) = Vector3 0 2 0 \<and> posOf s (bodyB s) = Vector3 1 0 1 \<and>
     posOf s (bodyC s) = Vector3 (- 1) 0 1 \<and>
     velOf s (bodyA s) = orbitVelocity (Vector3 0 2 0) (Vector3 1 0 1) 1 \<and>
     velOf s (bodyB s) = Vector3 0 0 0 \<and>
     velOf s (bodyC s) = orbitVelocity (Vector3 (- 1) 0 1) (Vector3 1 0 1) 1"
  by (simp add: initialState_def new_Vector3_def new_Body_def seedOrbit_orbitVelocity
      emptyStore_def posOf_def velOf_def)

section \<open>The claims\<close>



text \<open>
  C2. Action and reaction. \<open>updateBodies\<close> calls \<open>computeGravitationalForce\<close> three
  times, once for each pair of bodies; the three results are the first three objects
  allocated in the tick and still hold, at its end, the force at the positions of the
  start. The vectors handed to \<open>applyForce\<close> are the 4th, 7th and 10th object of the
  tick. For every pair the one body receives the force of the pair and the other its
  exact negation (which is the force the law gives with the two bodies exchanged), and
  the velocities are updated from these sums.
\<close>

theorem updateBodies_action_reaction:
  assumes "separated s"
    and "0 < mass (bodyA s)" and "0 < mass (bodyB s)" and "0 < mass (bodyC s)"
  shows "\<exists>s'. updateBodies s = Some s' \<and>
    (let n = nxt (heap s);
         forceAB = cells (heap s') n;
         forceAC = cells (heap s') (n + 1);
         forceBC = cells (heap s') (n + 2);
         onA = cells (heap s') (n + 3);
         onB = cells (heap s') (n + 6);
         onC = cells (heap s') (n + 9)
     in forceAB = forceBetween s (bodyA s) (bodyB s) \<and>
        forceAC = forceBetween s (bodyA s) (bodyC s) \<and>
        forceBC = forceBetween s (bodyB s) (bodyC s) \<and>
        onA = vadd forceAB forceAC \<and>
        onB = vadd (vnegate forceAB) forceBC \<and>
        onC = vadd (vnegate forceAC) (vnegate forceBC) \<and>
        vnegate forceAB = forceBetween s (bodyB s) (bodyA s) \<and>
        vnegate forceAC = forceBetween s (bodyC s) (bodyA s) \<and>
        vnegate forceBC = forceBetween s (bodyC s) (bodyB s) \<and>
        velOf s' (bodyA s') =
          vadd (velOf s (bodyA s)) (vscale (vdivide onA (mass (bodyA s))) dt) \<and>
        velOf s' (bodyB s') =
          vadd (velOf s (bodyB s)) (vscale (vdivide onB (mass (bodyB s))) dt) \<and>
        velOf s' (bodyC s') =
          vadd (velOf s (bodyC s)) (vscale (vdivide onC (mass (bodyC s))) dt))"
proof -
  have "mass (bodyA s) \<noteq> 0" "mass (bodyB s) \<noteq> 0" "mass (bodyC s) \<noteq> 0"
    using assms by simp_all
  from tick_effect [OF assms(1) this] obtain s' where s': "updateBodies s = Some s'"
    and f: "cells (heap s') (nxt (heap s)) = forceBetween s (bodyA s) (bodyB s)"
      "cells (heap s') (nxt (heap s) + 1) = forceBetween s (bodyA s) (bodyC s)"
      "cells (heap s') (nxt (heap s) + 2) = forceBetween s (bodyB s) (bodyC s)"
    and n: "cells (heap s') (nxt (heap s) + 3) = netForceA s"
      "cells (heap s') (nxt (heap s) + 6) = netForceB s"
      "cells (heap s') (nxt (heap s) + 9) = netForceC s"
    and v: "velOf s' (bodyA s') =
        vadd (velOf s (bodyA s)) (vscale (vscale (netForceA s) (1 / mass (bodyA s))) dt)"
      "velOf s' (bodyB s') =
        vadd (velOf s (bodyB s)) (vscale (vscale (netForceB s) (1 / mass (bodyB s))) dt)"
      "velOf s' (bodyC s') =
        vadd (velOf s (bodyC s)) (vscale (vscale (netForceC s) (1 / mass (bodyC s))) dt)"
    by blast
  have swap: "vnegate (forceBetween s (bodyA s) (bodyB s)) = forceBetween s (bodyB s) (bodyA s)"
    "vnegate (forceBetween s (bodyA s) (bodyC s)) = forceBetween s (bodyC s) (bodyA s)"
    "vnegate (forceBetween s (bodyB s) (bodyC s)) = forceBetween s (bodyC s) (bodyB s)"
    by (simp_all add: forceBetween_def forceOn_swap [symmetric])
  have "netForceA s = vadd (forceBetween s (bodyA s) (bodyB s)) (forceBetween s (bodyA s) (bodyC s))"
    "netForceB s =
      vadd (vnegate (forceBetween s (bodyA s) (bodyB s))) (forceBetween s (bodyB s) (bodyC s))"
    "netForceC s =
      vadd (vnegate (forceBetween s (bodyA s) (bodyC s)))
        (vnegate (forceBetween s (bodyB s) (bodyC s)))"
    by (simp_all only: netForceA_def netForceB_def netForceC_def)
  with s' f n v swap show ?thesis
    by (intro exI [of _ s']) (simp only: Let_def vscale_reciprocal simp_thms)
qed

theorem updateBodies_action_reaction_witness:
  "\<exists>s s'. initialState = Some s \<and> separated s \<and>
     0 < mass (bodyA s) \<and> 0 < mass (bodyB s) \<and> 0 < mass (bodyC s) \<and>
     updateBodies s = Some s' \<and>
     cells (heap s') (nxt (heap s) + 6) =
       vadd (vnegate (cells (heap s') (nxt (heap s)))) (cells (heap s') (nxt (heap s) + 2)) \<and>
     cells (heap s') (nxt (heap s) + 3) =
       vadd (cells (heap s') (nxt (heap s))) (cells (heap s') (nxt (heap s) + 1))"
proof -
  from initialState_separated obtain s where s: "initialState = Some s" "separated s"
    "mass (bodyA s) = 1" "mass (bodyB s) = 1" "mass (bodyC s) = 1"
    by blast
  have m: "0 < mass (bodyA s)" "0 < mass (bodyB s)" "0 < mass (bodyC s)"
    using s by simp_all
  from updateBodies_action_reaction [OF s(2) m] obtain s' where "updateBodies s = Some s'"
    "cells (heap s') (nxt (heap s) + 6) =
       vadd (vnegate (cells (heap s') (nxt (heap s)))) (cells (heap s') (nxt (heap s) + 2))"
    "cells (heap s') (nxt (heap s) + 3) =
       vadd (cells (heap s') (nxt (heap s))) (cells (heap s') (nxt (heap s) + 1))"
    unfolding Let_def by blast
  with s(1,2) m show ?thesis
    by blast
qed

text \<open>
  C3. Trail bound. From a state without aliases whose trails hold at most
  \<open>maxTrailLength\<close> entries (the initial state is one, its trails are empty), and with
  masses other than zero so that every tick returns: at the end of every frame each trail
  holds at most \<open>maxTrailLength = 100\<close> entries, and after \<open>n\<close> frames the trail of
  each body is, read through the store, exactly the last \<open>maxTrailLength\<close> elements of
  the earlier trail followed by the positions at the end of each frame, in that order,
  oldest first. So once the buffer is full every append drops exactly the oldest entry.
\<close>

theorem trail_bounded_fifo:
  assumes "separated s"
    and "mass (bodyA s) \<noteq> 0" and "mass (bodyB s) \<noteq> 0" and "mass (bodyC s) \<noteq> 0"
    and "length (trailPositions (bodyA s)) \<le> maxTrailLength"
    and "length (trailPositions (bodyB s)) \<le> maxTrailLength"
    and "length (trailPositions (bodyC s)) \<le> maxTrailLength"
  shows "\<exists>tr. animateThreeBodyProblem n s = Some tr \<and> length tr = n \<and> maxTrailLength = 100 \<and>
    (\<forall>t \<in> set tr. length (trailPositions (bodyA t)) \<le> maxTrailLength \<and>
       length (trailPositions (bodyB t)) \<le> maxTrailLength \<and>
       length (trailPositions (bodyC t)) \<le> maxTrailLength) \<and>
    trailOf (last (s # tr)) (bodyA (last (s # tr))) =
      lastN maxTrailLength (trailOf s (bodyA s) @ map (\<lambda>t. posOf t (bodyA t)) tr) \<and>
    trailOf (last (s # tr)) (bodyB (last (s # tr))) =
      lastN maxTrailLength (trailOf s (bodyB s) @ map (\<lambda>t. posOf t (bodyB t)) tr) \<and>
    trailOf (last (s # tr)) (bodyC (last (s # tr))) =
      lastN maxTrailLength (trailOf s (bodyC s) @ map (\<lambda>t. posOf t (bodyC t)) tr)"
proof -
  have "maxTrailLength = 100"
    by (simp add: maxTrailLength_def)
  with frames_trails [OF assms, of n] show ?thesis
    by blast
qed

text \<open>
  The program itself, run for 101 frames: the trail of each body is the positions at the
  end of the last 100 frames, the first one dropped.
\<close>

theorem trail_bounded_fifo_witness:
  "\<exists>s tr. initialState = Some s \<and> separated s \<and>
     mass (bodyA s) \<noteq> 0 \<and> mass (bodyB s) \<noteq> 0 \<and> mass (bodyC s) \<noteq> 0 \<and>
     length (trailPositions (bodyA s)) \<le> maxTrailLength \<and>
     length (trailPositions (bodyB s)) \<le> maxTrailLength \<and>
     length (trailPositions (bodyC s)) \<le> maxTrailLength \<and>
     animateThreeBodyProblem 101 s = Some tr \<and> length tr = 101 \<and>
     length (trailOf (last (s # tr)) (bodyA (last (s # tr)))) = 100 \<and>
     trailOf (last (s # tr)) (bodyA (last (s # tr))) = drop 1 (map (\<lambda>t. posOf t (bodyA t)) tr) \<and>
     trailOf (last (s # tr)) (bodyB (last (s # tr))) = drop 1 (map (\<lambda>t. posOf t (bodyB t)) tr) \<and>
     trailOf (last (s # tr)) (bodyC (last (s # tr))) = drop 1 (map (\<lambda>t. posOf t (bodyC t)) tr)"
proof -
  from initialState_separated obtain s where s: "initialState = Some s" "separated s"
    and m: "mass (bodyA s) = 1" "mass (bodyB s) = 1" "mass (bodyC s) = 1"
    and e: "trailPositions (bodyA s) = []" "trailPositions (bodyB s) = []"
      "trailPositions (bodyC s) = []"
    by blast
  have h: "mass (bodyA s) \<noteq> 0" "mass (bodyB s) \<noteq> 0" "mass (bodyC s) \<noteq> 0"
    "length (trailPositions (bodyA s)) \<le> maxTrailLength"
    "length (trailPositions (bodyB s)) \<le> maxTrailLength"
    "length (trailPositions (bodyC s)) \<le> maxTrailLength"
    by (simp_all add: m e)
  from trail_bounded_fifo [OF s(2) h, of 101] obtain tr where tr: "animateThreeBodyProblem 101 s = Some tr"
    "length tr = 101"
    and w: "trailOf (last (s # tr)) (bodyA (last (s # tr))) =
      lastN maxTrailLength (trailOf s (bodyA s) @ map (\<lambda>t. posOf t (bodyA t)) tr)"
    "trailOf (last (s # tr)) (bodyB (last (s # tr))) =
      lastN maxTrailLength (trailOf s (bodyB s) @ map (\<lambda>t. posOf t (bodyB t)) tr)"
    "trailOf (last (s # tr)) (bodyC (last (s # tr))) =
      lastN maxTrailLength (trailOf s (bodyC s) @ map (\<lambda>t. posOf t (bodyC t)) tr)"
    by blast
  have d: "trailOf (last (s # tr)) (bodyA (last (s # tr))) = drop 1 (map (\<lambda>t. posOf t (bodyA t)) tr)"
    "trailOf (last (s # tr)) (bodyB (last (s # tr))) = drop 1 (map (\<lambda>t. posOf t (bodyB t)) tr)"
    "trailOf (last (s # tr)) (bodyC (last (s # tr))) = drop 1 (map (\<lambda>t. posOf t (bodyC t)) tr)"
    unfolding w by (simp_all add: lastN_def trailOf_def e tr(2) maxTrailLength_def)
  have "length (trailOf (last (s # tr)) (bodyA (last (s # tr)))) = 100"
    unfolding d by (simp add: tr(2))
  with d s h tr show ?thesis
    by blast
qed

text \<open>
  C4. Distance floor. The claim does not hold for every distance strictly between 0 and
  \<open>minDistance\<close>: the program computes in doubles. For two bodies of mass 1 at
  \<open>(0,0,0)\<close> and \<open>(10^-200,0,0)\<close> the square of the difference is too small for a
  double and is 0, so \<open>length()\<close> is 0, \<open>normalize\<close> leaves the difference as it
  is, and the vector returned is \<open>(10^-198,0,0)\<close>. Its length is \<open>10^-198\<close> and not
  \<open>G * 1 * 1 / minDistance^2 = 100\<close>.
\<close>

theorem computeGravitationalForce_underflow:
  "(let h = emptyStore\<lparr>cells := (cells emptyStore)(1 := Vector3 (1 / 10 ^ 200) 0 0), nxt := 2\<rparr>;
        b0 = \<lparr>position = 0, velocity = 0, mass = 1, color = 0, trailPositions = []\<rparr>;
        b1 = \<lparr>position = 1, velocity = 1, mass = 1, color = 0, trailPositions = []\<rparr>
    in distanceTo (position b0) (position b1) h = 1 / 10 ^ 200 \<and>
       computeGravitationalForce_dbl b0 b1 h =
         Some (2, h\<lparr>cells := (cells h)(2 := Vector3 (1 / 10 ^ 198) 0 0), nxt := 3\<rparr>) \<and>
       vlength (Vector3 (1 / 10 ^ 198) 0 0) = 1 / 10 ^ 198 \<and>
       G * mass b0 * mass b1 / minDistance\<^sup>2 = 100)"
proof -
  have md: "0 < minDistance" "minDistance \<noteq> 0"
    by (simp_all add: minDistance_def)
  have t: "dbl (1 / 10 ^ 400) = Some 0" "dbl (100 / 10 ^ 200) = Some (1 / 10 ^ 198)"
    using dbl_tiny_facts(2,3) by simp_all
  have "computeGravitationalForce_dbl
      \<lparr>position = 0, velocity = 0, mass = 1, color = 0, trailPositions = []\<rparr>
      \<lparr>position = 1, velocity = 1, mass = 1, color = 0, trailPositions = []\<rparr>
      (emptyStore\<lparr>cells := (cells emptyStore)(1 := Vector3 (1 / 10 ^ 200) 0 0), nxt := 2\<rparr>) =
    Some (2, emptyStore\<lparr>cells := (cells emptyStore)
      (1 := Vector3 (1 / 10 ^ 200) 0 0, 2 := Vector3 (1 / 10 ^ 198) 0 0), nxt := 3\<rparr>)"
    by (simp add: computeGravitationalForce_dbl_def clone_eq emptyStore_def sub_dbl_def
        vsub_dbl_def dbl_sub_def dbl_tiny_facts t dbl_0 length_dbl_def vlength_dbl_def dbl_mul_def
        dbl_add_def dbl_sqrt_def md G_def dbl_1 dbl_minDistance_sq dbl_div_def dbl_100
        normalize_dbl_def divideScalar_dbl_def multiplyScalar_dbl_def vscale_dbl_def
        del: power_numeral)
  moreover have "distanceTo 0 1
      (emptyStore\<lparr>cells := (cells emptyStore)(1 := Vector3 (1 / 10 ^ 200) 0 0), nxt := 2\<rparr>)
      = 1 / 10 ^ 200"
    by (simp add: distanceTo_sym emptyStore_def vsub_def vlength_on_axis del: power_numeral)
  moreover have "vlength (Vector3 (1 / 10 ^ 198) 0 0) = 1 / 10 ^ 198"
    by (simp add: vlength_on_axis del: power_numeral)
  moreover have "G * 1 * 1 / minDistance\<^sup>2 = 100"
    by (simp add: G_def minDistance_def power2_eq_square)
  ultimately show ?thesis
    by (simp add: Let_def del: power_numeral)
qed

text \<open>
  C4 as amended. For two allocated bodies with positive masses, where the two masses and
  the three differences of the coordinates of the positions are each 0 or of magnitude
  between \<open>2^-100\<close> and \<open>2^100\<close>, no operation of \<open>computeGravitationalForce\<close>
  leaves the range of doubles, the function returns what it returns in exact arithmetic,
  and the length of the vector returned is \<open>G * m1 * m2 / minDistance^2\<close> when the
  distance \<open>r\<close> of the two positions is strictly between 0 and \<open>minDistance\<close>, and
  \<open>G * m1 * m2 / r^2\<close> when \<open>r\<close> is at least \<open>minDistance\<close>.
\<close>

theorem computeGravitationalForce_magnitude:
  assumes "position body1 < nxt h" and "position body2 < nxt h"
    and "0 < mass body1" and "0 < mass body2"
    and "moderate (mass body1)" and "moderate (mass body2)"
    and "vmoderate (vsub (cells h (position body2)) (cells h (position body1)))"
  shows "\<exists>f h'. computeGravitationalForce_dbl body1 body2 h = Some (f, h') \<and>
    computeGravitationalForce body1 body2 h = Some (f, h') \<and>
    (let r = distanceTo (position body1) (position body2) h
     in (0 < r \<and> r < minDistance \<longrightarrow>
           vlength (cells h' f) = G * mass body1 * mass body2 / minDistance\<^sup>2) \<and>
        (minDistance \<le> r \<longrightarrow>
           vlength (cells h' f) = G * mass body1 * mass body2 / r\<^sup>2))"
proof -
  define p1 where "p1 = cells h (position body1)"
  define p2 where "p2 = cells h (position body2)"
  define r where "r = distanceTo (position body1) (position body2) h"
  have r: "r = vlength (vsub p2 p1)"
    by (simp add: r_def p1_def p2_def distanceTo_sym)
  have a: "position body1 \<noteq> nxt h"
    using assms(1) by simp
  have eq: "computeGravitationalForce body1 body2 h =
      Some (nxt h, h\<lparr>cells := (cells h)(nxt h := forceOn p1 (mass body1) p2 (mass body2)),
        nxt := Suc (nxt h)\<rparr>)"
    unfolding p1_def p2_def using a by (rule computeGravitationalForce_eq)
  have eqd: "computeGravitationalForce_dbl body1 body2 h =
      Some (nxt h, h\<lparr>cells := (cells h)(nxt h := forceOn p1 (mass body1) p2 (mass body2)),
        nxt := Suc (nxt h)\<rparr>)"
    unfolding p1_def p2_def using a assms(7,5,6) by (rule computeGravitationalForce_dbl_exact)
  have pos: "\<bar>G * mass body1 * mass body2\<bar> = G * mass body1 * mass body2"
    using assms(3,4) by (simp add: G_def)
  have len: "vlength (forceOn p1 (mass body1) p2 (mass body2)) =
      G * mass body1 * mass body2 / (max r minDistance)\<^sup>2" if "0 < r"
  proof -
    from that have "p1 \<noteq> p2"
      by (auto simp add: r vsub_def vlength_def)
    from vlength_forceOn [OF this] show ?thesis
      by (simp add: pos r power2_eq_square)
  qed
  have near: "vlength (forceOn p1 (mass body1) p2 (mass body2)) =
      G * mass body1 * mass body2 / minDistance\<^sup>2" if "0 < r" "r < minDistance"
    using len [OF that(1)] that(2) by (simp add: max_def)
  have far: "vlength (forceOn p1 (mass body1) p2 (mass body2)) =
      G * mass body1 * mass body2 / r\<^sup>2" if "minDistance \<le> r"
  proof -
    have "0 < minDistance" by (simp add: minDistance_def)
    with that have "0 < r" by simp
    from len [OF this] that show ?thesis by (simp add: max_def)
  qed
  show ?thesis
    unfolding eq eqd using near far by (simp add: Let_def r_def [symmetric])
qed

text \<open>
  Two bodies of mass 1 and 3 at distance \<open>1/20\<close>, below \<open>minDistance = 1/10\<close>: the
  length is \<open>1 * 1 * 3 / (1/10)^2 = 300\<close>. At distance \<open>2\<close> it is \<open>3/4\<close>.
\<close>

theorem computeGravitationalForce_magnitude_witness:
  "(let h = emptyStore\<lparr>cells := (cells emptyStore)
              (1 := Vector3 (1 / 20) 0 0, 2 := Vector3 2 0 0), nxt := 3\<rparr>;
        b0 = \<lparr>position = 0, velocity = 0, mass = 1, color = 0, trailPositions = []\<rparr>;
        b1 = \<lparr>position = 1, velocity = 1, mass = 3, color = 0, trailPositions = []\<rparr>;
        b2 = \<lparr>position = 2, velocity = 2, mass = 3, color = 0, trailPositions = []\<rparr>
    in moderate (mass b0) \<and> moderate (mass b1) \<and>
       vmoderate (vsub (cells h (position b1)) (cells h (position b0))) \<and>
       vmoderate (vsub (cells h (position b2)) (cells h (position b0))) \<and>
       distanceTo (position b0) (position b1) h = 1 / 20 \<and>
       (\<exists>f h'. computeGravitationalForce_dbl b0 b1 h = Some (f, h') \<and> vlength (cells h' f) = 300) \<and>
       distanceTo (position b0) (position b2) h = 2 \<and>
       (\<exists>f h'. computeGravitationalForce_dbl b0 b2 h = Some (f, h') \<and> vlength (cells h' f) = 3 / 4))"
proof -
  define h where "h = emptyStore\<lparr>cells := (cells emptyStore)
      (1 := Vector3 (1 / 20) 0 0, 2 := Vector3 2 0 0), nxt := 3\<rparr>"
  define b0 where "b0 = \<lparr>position = 0, velocity = 0, mass = 1, color = 0, trailPositions = []\<rparr>"
  define b1 where "b1 = \<lparr>position = 1, velocity = 1, mass = 3, color = 0, trailPositions = []\<rparr>"
  define b2 where "b2 = \<lparr>position = 2, velocity = 2, mass = 3, color = 0, trailPositions = []\<rparr>"
  have d1: "distanceTo (position b0) (position b1) h = 1 / 20"
    by (simp add: distanceTo_sym h_def b0_def b1_def vsub_def vlength_on_axis emptyStore_def)
  have d2: "distanceTo (position b0) (position b2) h = 2"
    by (simp add: distanceTo_sym h_def b0_def b2_def vsub_def vlength_on_axis emptyStore_def)
  have a: "position b0 < nxt h" "position b1 < nxt h" "position b2 < nxt h"
    "0 < mass b0" "0 < mass b1" "0 < mass b2"
    by (simp_all add: h_def b0_def b1_def b2_def)
  have m: "moderate (mass b0)" "moderate (mass b1)" "moderate (mass b2)"
    by (simp_all add: b0_def b1_def b2_def moderate_def)
  have v: "vmoderate (vsub (cells h (position b1)) (cells h (position b0)))"
    "vmoderate (vsub (cells h (position b2)) (cells h (position b0)))"
    by (simp_all add: h_def b0_def b1_def b2_def emptyStore_def vsub_def vmoderate_def moderate_def)
  from computeGravitationalForce_magnitude [OF a(1) a(2) a(4) a(5) m(1) m(2) v(1)]
  have "\<exists>f h'. computeGravitationalForce_dbl b0 b1 h = Some (f, h') \<and> vlength (cells h' f) = 300"
    unfolding Let_def d1 by (auto simp add: minDistance_def G_def b0_def b1_def power2_eq_square)
  moreover from computeGravitationalForce_magnitude [OF a(1) a(3) a(4) a(6) m(1) m(3) v(2)]
  have "\<exists>f h'. computeGravitationalForce_dbl b0 b2 h = Some (f, h') \<and> vlength (cells h' f) = 3 / 4"
    unfolding Let_def d2 by (auto simp add: minDistance_def G_def b0_def b2_def power2_eq_square)
  ultimately show ?thesis
    using d1 d2 m(1,2) v unfolding Let_def h_def b0_def b1_def b2_def by blast
qed

text \<open>
  C5. Orbit seeding. The claim does not hold for every two bodies at distinct positions:
  the program computes in doubles. For a body at \<open>(10^-200,0,0)\<close> and a reference body
  of mass 1 at the origin the square of the difference is too small for a double and is
  0, so \<open>distanceTo\<close> is 0 and \<open>getOrbitalVelocity\<close> divides by zero: the speed is
  \<open>Infinity\<close> and the velocity that is seeded is not finite.
\<close>

theorem seedOrbit_underflow:
  "(let h = emptyStore\<lparr>cells := (cells emptyStore)(0 := Vector3 (1 / 10 ^ 200) 0 0), nxt := 4\<rparr>;
        p = \<lparr>position = 0, velocity = 1, mass = 1, color = 0, trailPositions = []\<rparr>;
        q = \<lparr>position = 2, velocity = 3, mass = 1, color = 0, trailPositions = []\<rparr>
    in cells h (position p) \<noteq> cells h (position q) \<and>
       getOrbitalVelocity_dbl p q h = None \<and> seedOrbit_dbl p q h = None)"
proof -
  have t: "dbl (1 / 10 ^ 400) = Some 0"
    using dbl_tiny_facts(2) by simp
  have "getOrbitalVelocity_dbl
      \<lparr>position = 0, velocity = 1, mass = 1, color = 0, trailPositions = []\<rparr>
      \<lparr>position = 2, velocity = 3, mass = 1, color = 0, trailPositions = []\<rparr>
      (emptyStore\<lparr>cells := (cells emptyStore)(0 := Vector3 (1 / 10 ^ 200) 0 0), nxt := 4\<rparr>) = None"
    by (simp add: getOrbitalVelocity_dbl_def distanceTo_dbl_def emptyStore_def vsub_dbl_def
        dbl_sub_def dbl_tiny_facts t dbl_0 vlength_dbl_def dbl_mul_def dbl_add_def dbl_sqrt_def
        G_def dbl_1 dbl_div_def del: power_numeral)
  then show ?thesis
    by (simp add: Let_def seedOrbit_dbl_def emptyStore_def del: power_numeral)
qed

text \<open>
  C5 as amended. For an orbiting body \<open>p\<close> and a reference body \<open>q\<close>, both
  allocated, at different positions, where the mass of \<open>q\<close> is not negative and that
  mass and the three differences of the coordinates of the positions are each 0 or of
  magnitude between \<open>2^-100\<close> and \<open>2^100\<close>, no operation of the seeding block leaves
  the range of doubles, the block returns what it returns in exact arithmetic, and it
  gives \<open>p\<close> a new velocity object that holds \<open>(-u.y, u.x, 0) * sqrt(G * q.mass / r)\<close>,
  where \<open>r\<close> is the distance of the two positions and
  \<open>u = (p.position - q.position) / r\<close> is the unit vector from \<open>q\<close> to \<open>p\<close>;
  position and mass of \<open>p\<close> stay as they are. For \<open>p\<close> at \<open>(1,0,0)\<close> and \<open>q\<close> of
  mass 1 at the origin that velocity is \<open>(0,1,0)\<close> (\<open>G\<close> is 1). The initial state of
  the program holds the three bodies at the positions of lines 65 to 67, \<open>bodyA\<close> and
  \<open>bodyC\<close> with this velocity around \<open>bodyB\<close>, and \<open>bodyB\<close> at rest.
\<close>

theorem seedOrbit_velocity:
  assumes "position p < nxt h" and "position q < nxt h"
    and "cells h (position p) \<noteq> cells h (position q)"
    and "0 \<le> mass q" and "moderate (mass q)"
    and "vmoderate (vsub (cells h (position p)) (cells h (position q)))"
  shows "(\<exists>p' h'. seedOrbit_dbl p q h = Some (p', h') \<and> seedOrbit p q h = Some (p', h') \<and>
      position p' = position p \<and> mass p' = mass p \<and>
      vlength (vdivide (vsub (cells h (position p)) (cells h (position q)))
         (distanceTo (position p) (position q) h)) = 1 \<and>
      cells h' (velocity p') =
        orbitVelocity (cells h (position p)) (cells h (position q)) (mass q)) \<and>
    orbitVelocity (Vector3 1 0 0) (Vector3 0 0 0) 1 = Vector3 0 1 0 \<and> G = 1 \<and>
    (\<exists>s. initialState = Some s \<and>
       posOf s (bodyA s) = Vector3 0 2 0 \<and> posOf s (bodyB s) = Vector3 1 0 1 \<and>
       posOf s (bodyC s) = Vector3 (- 1) 0 1 \<and>
       velOf s (bodyA s) = orbitVelocity (Vector3 0 2 0) (Vector3 1 0 1) 1 \<and>
       velOf s (bodyB s) = Vector3 0 0 0 \<and>
       velOf s (bodyC s) = orbitVelocity (Vector3 (- 1) 0 1) (Vector3 1 0 1) 1)"
proof -
  let ?d = "vsub (cells h (position p)) (cells h (position q))"
  have q: "position q \<noteq> nxt h"
    using assms(2) by simp
  have nz: "?d \<noteq> Vector3 0 0 0"
    using assms(3) by (rule vsub_nonzero)
  then have "vnormalize ?d = vdivide ?d (vlength ?d)"
    by (simp add: vnormalize_def vlength_eq_0)
  with vlength_vnormalize [OF nz]
  have one: "vlength (vdivide ?d (distanceTo (position p) (position q) h)) = 1"
    by (simp add: distanceTo_def)
  note ex = seedOrbit_orbitVelocity [OF assms(3,4) q]
  note dbl = seedOrbit_dbl_exact [OF assms(3,6,5,4) q]
  have "\<exists>p' h'. seedOrbit_dbl p q h = Some (p', h') \<and> seedOrbit p q h = Some (p', h') \<and>
      position p' = position p \<and> mass p' = mass p \<and>
      vlength (vdivide ?d (distanceTo (position p) (position q) h)) = 1 \<and>
      cells h' (velocity p') =
        orbitVelocity (cells h (position p)) (cells h (position q)) (mass q)"
    unfolding dbl ex using one by simp
  with orbitVelocity_scenario initialState_seeded show ?thesis
    by (simp add: G_def)
qed

text \<open>
  The first seeding of the program: \<open>bodyA\<close> at \<open>(0,2,0)\<close> around \<open>bodyB\<close> of mass 1
  at \<open>(1,0,1)\<close>, in the store as lines 65 to 67 leave it.
\<close>

theorem seedOrbit_velocity_witness:
  "(let h = emptyStore\<lparr>cells := (cells emptyStore)
              (0 := Vector3 0 2 0, 2 := Vector3 1 0 1, 4 := Vector3 (- 1) 0 1), nxt := 6\<rparr>;
        a = \<lparr>position = 0, velocity = 1, mass = 1, color = 0xff0000, trailPositions = []\<rparr>;
        b = \<lparr>position = 2, velocity = 3, mass = 1, color = 0x00ff00, trailPositions = []\<rparr>
    in cells h (position a) \<noteq> cells h (position b) \<and> moderate (mass b) \<and>
       vmoderate (vsub (cells h (position a)) (cells h (position b))) \<and>
       (\<exists>a' h'. seedOrbit_dbl a b h = Some (a', h') \<and> seedOrbit a b h = Some (a', h') \<and>
          cells h' (velocity a') = orbitVelocity (Vector3 0 2 0) (Vector3 1 0 1) 1))"
proof -
  define h where "h = emptyStore\<lparr>cells := (cells emptyStore)
      (0 := Vector3 0 2 0, 2 := Vector3 1 0 1, 4 := Vector3 (- 1) 0 1), nxt := 6\<rparr>"
  define a where "a = \<lparr>position = 0, velocity = 1, mass = 1, color = 0xff0000, trailPositions = []\<rparr>"
  define b where "b = \<lparr>position = 2, velocity = 3, mass = 1, color = 0x00ff00, trailPositions = []\<rparr>"
  have c: "position a < nxt h" "position b < nxt h" "cells h (position a) \<noteq> cells h (position b)"
    "0 \<le> mass b"
    by (simp_all add: h_def a_def b_def emptyStore_def)
  have m: "moderate (mass b)" "vmoderate (vsub (cells h (position a)) (cells h (position b)))"
    by (simp_all add: h_def a_def b_def emptyStore_def vsub_def vmoderate_def moderate_def)
  have v: "cells h (position a) = Vector3 0 2 0" "cells h (position b) = Vector3 1 0 1" "mass b = 1"
    by (simp_all add: h_def a_def b_def emptyStore_def)
  from seedOrbit_velocity [OF c m]
  have "\<exists>a' h'. seedOrbit_dbl a b h = Some (a', h') \<and> seedOrbit a b h = Some (a', h') \<and>
      cells h' (velocity a') = orbitVelocity (Vector3 0 2 0) (Vector3 1 0 1) 1"
    unfolding v by blast
  with c(3) m show ?thesis
    unfolding Let_def h_def a_def b_def by blast
qed

text \<open>
  C6. Invalid mass. The claim does not hold: the constructor has no check of the mass.
  \<open>new Body\<close> with mass 0 returns a body of mass 0.
\<close>

theorem new_Body_zero_mass_accepted:
  "new_Body 0 1 0 0xff0000 =
     Some \<lparr>position = 0, velocity = 1, mass = 0, color = 0xff0000, trailPositions = []\<rparr>"
  by (simp add: new_Body_def)

text \<open>
  C6 as amended. Construction never fails and does not look at the mass: for every mass,
  also a mass that is zero or negative, it returns a body that holds the given position,
  velocity, mass and colour and an empty trail. The three bodies that the program itself
  constructs have mass 1.
\<close>

theorem new_Body_no_mass_check:
  "new_Body pos vel m col =
     Some \<lparr>position = pos, velocity = vel, mass = m, color = col, trailPositions = []\<rparr> \<and>
   (\<exists>s. initialState = Some s \<and> mass (bodyA s) = 1 \<and> mass (bodyB s) = 1 \<and> mass (bodyC s) = 1)"
  using initialState_separated by (auto simp add: new_Body_def)

text \<open>
  C7. Snapshot of the positions. In a state \<open>s\<close> without aliases (masses other than
  zero) one tick returns; the three force vectors it computes hold the force law at the
  positions of \<open>s\<close>, the start of the tick, although the positions have moved by the
  end of the tick; and when the same three bodies are handed to \<open>updateBodies\<close> in any
  other of the six orders, every position and velocity object holds at the end the same
  value as with the order of the program.
\<close>

theorem updateBodies_snapshot_any_order:
  assumes "separated s"
    and "mass (bodyA s) \<noteq> 0" and "mass (bodyB s) \<noteq> 0" and "mass (bodyC s) \<noteq> 0"
    and "(x, y, z) \<in> set (orders s)"
  shows "\<exists>s' t'. updateBodies s = Some s' \<and> updateBodies (withOrder x y z s) = Some t' \<and>
    cells (heap s') (nxt (heap s)) =
      forceOn (posOf s (bodyA s)) (mass (bodyA s)) (posOf s (bodyB s)) (mass (bodyB s)) \<and>
    cells (heap s') (nxt (heap s) + 1) =
      forceOn (posOf s (bodyA s)) (mass (bodyA s)) (posOf s (bodyC s)) (mass (bodyC s)) \<and>
    cells (heap s') (nxt (heap s) + 2) =
      forceOn (posOf s (bodyB s)) (mass (bodyB s)) (posOf s (bodyC s)) (mass (bodyC s)) \<and>
    (\<forall>a \<in> set (vectorsOf s). cells (heap t') a = cells (heap s') a)"
proof -
  note ms = assms(2-4)
  from tick_effect [OF assms(1) ms] obtain s' where s': "updateBodies s = Some s'"
    and f: "cells (heap s') (nxt (heap s)) = forceBetween s (bodyA s) (bodyB s)"
      "cells (heap s') (nxt (heap s) + 1) = forceBetween s (bodyA s) (bodyC s)"
      "cells (heap s') (nxt (heap s) + 2) = forceBetween s (bodyB s) (bodyC s)"
    by blast
  let ?s2 = "withOrder x y z s"
  have sep2: "separated ?s2"
    using assms(1,5) by (rule separated_withOrder)
  have ms2: "mass (bodyA ?s2) \<noteq> 0" "mass (bodyB ?s2) \<noteq> 0" "mass (bodyC ?s2) \<noteq> 0"
    using assms(5) ms by (auto simp add: orders_def withOrder_simps)
  from tick_Some [OF sep2 ms2] obtain t' where t': "updateBodies ?s2 = Some t'"
    by blast
  note S = tick_values [OF assms(1) ms s']
  note T = tick_values [OF sep2 ms2 t', unfolded withOrder_simps]
  from assms(5) consider
      "x = bodyA s" "y = bodyB s" "z = bodyC s" | "x = bodyA s" "y = bodyC s" "z = bodyB s"
    | "x = bodyB s" "y = bodyA s" "z = bodyC s" | "x = bodyB s" "y = bodyC s" "z = bodyA s"
    | "x = bodyC s" "y = bodyA s" "z = bodyB s" | "x = bodyC s" "y = bodyB s" "z = bodyA s"
    by (auto simp add: orders_def)
  then have same: "\<forall>a \<in> set (vectorsOf s). cells (heap t') a = cells (heap s') a"
  proof cases
    case 1
    with S T show ?thesis by (simp add: vectorsOf_def vadd_commute)
  next
    case 2
    with S T show ?thesis by (simp add: vectorsOf_def vadd_commute)
  next
    case 3
    with S T show ?thesis by (simp add: vectorsOf_def vadd_commute)
  next
    case 4
    with S T show ?thesis by (simp add: vectorsOf_def vadd_commute)
  next
    case 5
    with S T show ?thesis by (simp add: vectorsOf_def vadd_commute)
  next
    case 6
    with S T show ?thesis by (simp add: vectorsOf_def vadd_commute)
  qed
  from s' t' f same show ?thesis
    unfolding forceBetween_def by blast
qed

theorem updateBodies_snapshot_any_order_witness:
  "\<exists>s s' t'. initialState = Some s \<and> separated s \<and>
     mass (bodyA s) \<noteq> 0 \<and> mass (bodyB s) \<noteq> 0 \<and> mass (bodyC s) \<noteq> 0 \<and>
     (bodyC s, bodyA s, bodyB s) \<in> set (orders s) \<and>
     updateBodies s = Some s' \<and>
     updateBodies (withOrder (bodyC s) (bodyA s) (bodyB s) s) = Some t' \<and>
     cells (heap t') (position (bodyA s)) = cells (heap s') (position (bodyA s)) \<and>
     cells (heap t') (velocity (bodyC s)) = cells (heap s') (velocity (bodyC s))"
proof -
  from initialState_separated obtain s where s: "initialState = Some s" "separated s"
    and m: "mass (bodyA s) = 1" "mass (bodyB s) = 1" "mass (bodyC s) = 1"
    by blast
  have h: "mass (bodyA s) \<noteq> 0" "mass (bodyB s) \<noteq> 0" "mass (bodyC s) \<noteq> 0"
    by (simp_all add: m)
  have o: "(bodyC s, bodyA s, bodyB s) \<in> set (orders s)"
    by (simp add: orders_def)
  from updateBodies_snapshot_any_order [OF s(2) h o] obtain s' t'
    where r: "updateBodies s = Some s'"
      "updateBodies (withOrder (bodyC s) (bodyA s) (bodyB s) s) = Some t'"
      "\<forall>a \<in> set (vectorsOf s). cells (heap t') a = cells (heap s') a"
    by blast
  from r(3) have "cells (heap t') (position (bodyA s)) = cells (heap s') (position (bodyA s))"
    "cells (heap t') (velocity (bodyC s)) = cells (heap s') (velocity (bodyC s))"
    by (simp_all add: vectorsOf_def)
  with s h o r(1,2) show ?thesis
    by blast
qed

text \<open>
  C8. Coincident bodies. The claim does not hold for all masses: the program computes in
  doubles. For two bodies of mass \<open>10^200\<close> at the same position the product
  \<open>G * m1 * m2\<close> of line 88 is too large for a double and is \<open>Infinity\<close>, the
  force magnitude is \<open>Infinity\<close>, and the components of the vector returned are
  \<open>0 * Infinity\<close>, that is \<open>NaN\<close>: a non-finite number arises.
\<close>

theorem computeGravitationalForce_overflow:
  "(let h = emptyStore\<lparr>nxt := 2\<rparr>;
        b1 = \<lparr>position = 0, velocity = 0, mass = 10 ^ 200, color = 0, trailPositions = []\<rparr>;
        b2 = \<lparr>position = 1, velocity = 1, mass = 10 ^ 200, color = 0, trailPositions = []\<rparr>
    in cells h (position b1) = cells h (position b2) \<and>
       computeGravitationalForce_dbl b1 b2 h = None)"
proof -
  have md: "0 < minDistance" "minDistance \<noteq> 0"
    by (simp_all add: minDistance_def)
  have t: "dbl (10 ^ 400) = None"
    using dbl_huge_facts(2) by simp
  show ?thesis
    by (simp add: Let_def computeGravitationalForce_dbl_def clone_eq emptyStore_def sub_dbl_def
        vsub_dbl_def dbl_sub_def dbl_0 length_dbl_def vlength_dbl_def dbl_mul_def dbl_add_def
        dbl_sqrt_def md G_def dbl_huge_facts t del: power_numeral)
qed

text \<open>
  C8 as amended. For two allocated bodies whose positions have the same value and whose
  masses are such that neither \<open>G * m1\<close> nor \<open>G * m1 * m2 / minDistance^2\<close> exceeds
  the magnitude \<open>2^1023\<close> (half of the magnitude at which a double becomes
  \<open>Infinity\<close>), \<open>computeGravitationalForce\<close> returns, no non-finite number arises,
  and the vector it returns is the zero vector, in the range of doubles as in exact
  arithmetic: \<open>normalize\<close> leaves a vector of length 0 as it is.
\<close>

theorem computeGravitationalForce_coincident:
  assumes "position body1 < nxt h" and "position body2 < nxt h"
    and "cells h (position body1) = cells h (position body2)"
    and "\<bar>G * mass body1\<bar> \<le> 2 ^ 1023"
    and "\<bar>G * mass body1 * mass body2\<bar> / minDistance\<^sup>2 \<le> 2 ^ 1023"
  shows "\<exists>f h'. computeGravitationalForce_dbl body1 body2 h = Some (f, h') \<and>
    computeGravitationalForce body1 body2 h = Some (f, h') \<and>
    cells h' f = Vector3 0 0 0"
proof -
  have a: "position body1 \<noteq> nxt h"
    using assms(1) by simp
  have m: "\<bar>G * mass body1\<bar> < overflowAt"
    "\<bar>G * mass body1 * mass body2\<bar> / (minDistance * minDistance) < overflowAt"
    using assms(4,5) overflowAt_gt unfolding power2_eq_square by linarith+
  from computeGravitationalForce_eq [OF a, of body2]
    computeGravitationalForce_dbl_coincident [OF a assms(3) m]
  show ?thesis
    by (simp add: assms(3) forceOn_coincident)
qed

theorem computeGravitationalForce_coincident_witness:
  "(let h = emptyStore\<lparr>cells := (\<lambda>a. Vector3 1 2 3), nxt := 2\<rparr>;
        b1 = \<lparr>position = 0, velocity = 0, mass = 5, color = 0, trailPositions = []\<rparr>;
        b2 = \<lparr>position = 1, velocity = 1, mass = 7, color = 0, trailPositions = []\<rparr>
    in cells h (position b1) = cells h (position b2) \<and>
       \<bar>G * mass b1\<bar> \<le> 2 ^ 1023 \<and>
       \<bar>G * mass b1 * mass b2\<bar> / minDistance\<^sup>2 \<le> 2 ^ 1023 \<and>
       (\<exists>f h'. computeGravitationalForce_dbl b1 b2 h = Some (f, h') \<and> cells h' f = Vector3 0 0 0))"
proof -
  define h where "h = emptyStore\<lparr>cells := (\<lambda>a::nat. Vector3 1 2 3), nxt := 2\<rparr>"
  define b1 where "b1 = \<lparr>position = 0, velocity = 0, mass = 5, color = 0, trailPositions = []\<rparr>"
  define b2 where "b2 = \<lparr>position = 1, velocity = 1, mass = 7, color = 0, trailPositions = []\<rparr>"
  have a: "position b1 < nxt h" "position b2 < nxt h" "cells h (position b1) = cells h (position b2)"
    by (simp_all add: h_def b1_def b2_def)
  have m: "\<bar>G * mass b1\<bar> \<le> 2 ^ 1023" "\<bar>G * mass b1 * mass b2\<bar> / minDistance\<^sup>2 \<le> 2 ^ 1023"
    by (simp_all add: G_def b1_def b2_def minDistance_def power2_eq_square)
  from computeGravitationalForce_coincident [OF a m] a(3) m show ?thesis
    unfolding Let_def h_def b1_def b2_def by blast
qed

text \<open>
  C9. Momentum. In a state without aliases and with positive masses, one tick returns and
  leaves the total momentum, the sum of \<open>mass * velocity\<close> over the three bodies,
  unchanged (in exact arithmetic).
\<close>

theorem updateBodies_preserves_momentum:
  assumes "separated s"
    and "0 < mass (bodyA s)" and "0 < mass (bodyB s)" and "0 < mass (bodyC s)"
  shows "\<exists>s'. updateBodies s = Some s' \<and> momentum s' = momentum s"
proof -
  have m: "mass (bodyA s) \<noteq> 0" "mass (bodyB s) \<noteq> 0" "mass (bodyC s) \<noteq> 0"
    using assms by simp_all
  from tick_effect [OF assms(1) m] obtain s' where s': "updateBodies s = Some s'"
    and b: "mass (bodyA s') = mass (bodyA s)" "mass (bodyB s') = mass (bodyB s)"
      "mass (bodyC s') = mass (bodyC s)"
    and v: "velOf s' (bodyA s') =
        vadd (velOf s (bodyA s)) (vscale (vscale (netForceA s) (1 / mass (bodyA s))) dt)"
      "velOf s' (bodyB s') =
        vadd (velOf s (bodyB s)) (vscale (vscale (netForceB s) (1 / mass (bodyB s))) dt)"
      "velOf s' (bodyC s') =
        vadd (velOf s (bodyC s)) (vscale (vscale (netForceC s) (1 / mass (bodyC s))) dt)"
    by force
  have "momentum s' = momentum s"
    unfolding momentum_def b v by (rule momentum_step [OF m net_forces_cancel])
  with s' show ?thesis by blast
qed

theorem updateBodies_preserves_momentum_witness:
  "\<exists>s. initialState = Some s \<and> separated s \<and>
     0 < mass (bodyA s) \<and> 0 < mass (bodyB s) \<and> 0 < mass (bodyC s) \<and>
     (\<exists>s'. updateBodies s = Some s' \<and> momentum s' = momentum s)"
proof -
  from initialState_separated obtain s where s: "initialState = Some s" "separated s"
    "mass (bodyA s) = 1" "mass (bodyB s) = 1" "mass (bodyC s) = 1"
    by blast
  have m: "0 < mass (bodyA s)" "0 < mass (bodyB s)" "0 < mass (bodyC s)"
    using s by simp_all
  from updateBodies_preserves_momentum [OF s(2) m] s(1,2) m show ?thesis
    by blast
qed

text \<open>
  C10. Trail entries are copies. From a state without aliases (masses other than zero),
  at the end of every frame the last entry of each body's trail is an object of its own
  that holds the body's position at that moment, the state is again without aliases, so
  no trail entry is the object of a position or velocity that a later tick changes, and
  every entry that was in a trail at the start still holds the value it had then: later
  ticks do not alter stored entries.
\<close>

theorem trail_entries_are_copies:
  assumes "separated s"
    and "mass (bodyA s) \<noteq> 0" and "mass (bodyB s) \<noteq> 0" and "mass (bodyC s) \<noteq> 0"
  shows "\<exists>tr. animateThreeBodyProblem n s = Some tr \<and> length tr = n \<and>
    (\<forall>t \<in> set tr. separated t \<and>
       trailTracks t (bodyA t) \<and> trailTracks t (bodyB t) \<and> trailTracks t (bodyC t) \<and>
       (\<forall>a \<in> set (trailsOf s). cells (heap t) a = cells (heap s) a))"
proof -
  from frames_run [OF assms, of n] obtain tr where tr: "animateThreeBodyProblem n s = Some tr" "length tr = n"
    and inv: "\<forall>t \<in> set tr. separated t \<and> vectorsOf t = vectorsOf s \<and>
       nxt (heap s) \<le> nxt (heap t) \<and>
       trailTracks t (bodyA t) \<and> trailTracks t (bodyB t) \<and> trailTracks t (bodyC t) \<and>
       untouched s t"
    by blast
  have old: "cells (heap t) a = cells (heap s) a" if "t \<in> set tr" "a \<in> set (trailsOf s)" for t a
  proof -
    from that(2) assms(1) have "a < nxt (heap s)" "a \<notin> set (vectorsOf s)"
      by (auto simp add: separated_def)
    moreover from inv that(1) have "untouched s t"
      by blast
    ultimately show ?thesis
      by (simp add: untouched_def)
  qed
  have "separated t \<and>
       trailTracks t (bodyA t) \<and> trailTracks t (bodyB t) \<and> trailTracks t (bodyC t) \<and>
       (\<forall>a \<in> set (trailsOf s). cells (heap t) a = cells (heap s) a)" if t: "t \<in> set tr" for t
    using inv t old [OF t] by blast
  with tr show ?thesis
    by blast
qed

theorem trail_entries_are_copies_witness:
  "\<exists>s tr. initialState = Some s \<and> separated s \<and>
     mass (bodyA s) \<noteq> 0 \<and> mass (bodyB s) \<noteq> 0 \<and> mass (bodyC s) \<noteq> 0 \<and>
     animateThreeBodyProblem 3 s = Some tr \<and> length tr = 3 \<and> separated (last tr) \<and>
     trailTracks (last tr) (bodyA (last tr)) \<and> trailTracks (last tr) (bodyB (last tr)) \<and>
     trailTracks (last tr) (bodyC (last tr))"
proof -
  from initialState_separated obtain s where s: "initialState = Some s" "separated s"
    and m: "mass (bodyA s) = 1" "mass (bodyB s) = 1" "mass (bodyC s) = 1"
    by blast
  have h: "mass (bodyA s) \<noteq> 0" "mass (bodyB s) \<noteq> 0" "mass (bodyC s) \<noteq> 0"
    by (simp_all add: m)
  from trail_entries_are_copies [OF s(2) h, of 3] obtain tr where tr: "animateThreeBodyProblem 3 s = Some tr"
    "length tr = 3"
    and all: "\<forall>t \<in> set tr. separated t \<and>
       trailTracks t (bodyA t) \<and> trailTracks t (bodyB t) \<and> trailTracks t (bodyC t) \<and>
       (\<forall>a \<in> set (trailsOf s). cells (heap t) a = cells (heap s) a)"
    by blast
  from tr(2) have "tr \<noteq> []" by auto
  then have "last tr \<in> set tr" by simp
  with all have "separated (last tr) \<and> trailTracks (last tr) (bodyA (last tr)) \<and>
      trailTracks (last tr) (bodyB (last tr)) \<and> trailTracks (last tr) (bodyC (last tr))"
    by blast
  with s h tr show ?thesis
    by blast
qed

end
